theory Spec2Isabelle
  imports Complex_Main
begin

section \<open>Python floats, exceptions and pandas series\<close>

text \<open>
  The analytics functions of \<^verbatim>\<open>alphatic_portfolio_app.py\<close> compute on pandas series of
  IEEE doubles. The model keeps the special values that decide the code's branches:
  a float is \<open>NaN\<close>, an infinity, or a finite value. Finite values are exact reals:
  rounding, overflow and the sign of zero are not modelled, with one exception. Where
  the code compares a mean with the values it averages (the expected shortfall against
  the quantile), the rounding of \<^verbatim>\<open>Series.mean()\<close> decides the comparison on tied
  values, and the rounded mean is a parameter of the model. An input series holds
  finite, non-missing observations and is a list of reals; what the code computes
  from it is a \<open>pyfloat\<close>.
\<close>

datatype pyfloat = NaN | NInf | Fin real | PInf

datatype py_error = ZeroDivisionError | IndexError | ValueError | UnboundLocalError

text \<open>Comparisons: every ordered comparison with \<open>NaN\<close> is false, \<open>!=\<close> is true.\<close>

fun flt :: "pyfloat \<Rightarrow> pyfloat \<Rightarrow> bool" where
  "flt (Fin a) (Fin b) = (a < b)"
| "flt NInf (Fin b) = True"
| "flt NInf PInf = True"
| "flt (Fin a) PInf = True"
| "flt _ _ = False"

fun fle :: "pyfloat \<Rightarrow> pyfloat \<Rightarrow> bool" where
  "fle (Fin a) (Fin b) = (a \<le> b)"
| "fle NaN _ = False"
| "fle _ NaN = False"
| "fle NInf _ = True"
| "fle _ PInf = True"
| "fle _ _ = False"

definition fgt :: "pyfloat \<Rightarrow> pyfloat \<Rightarrow> bool" where
  "fgt a b = flt b a"

definition fge :: "pyfloat \<Rightarrow> pyfloat \<Rightarrow> bool" where
  "fge a b = fle b a"

definition feq :: "pyfloat \<Rightarrow> pyfloat \<Rightarrow> bool" where
  "feq a b = (a \<noteq> NaN \<and> a = b)"

definition fne :: "pyfloat \<Rightarrow> pyfloat \<Rightarrow> bool" where
  "fne a b = (\<not> feq a b)"

definition isna :: "pyfloat \<Rightarrow> bool" where
  "isna a = (a = NaN)"

text \<open>Arithmetic on floats, exact on finite values.\<close>

definition inf_of_sign :: "real \<Rightarrow> pyfloat" where
  "inf_of_sign s = (if 0 < s then PInf else if s < 0 then NInf else NaN)"

fun fsign :: "pyfloat \<Rightarrow> real" where
  "fsign NaN = 0"
| "fsign NInf = - 1"
| "fsign (Fin a) = sgn a"
| "fsign PInf = 1"

fun fneg :: "pyfloat \<Rightarrow> pyfloat" where
  "fneg NaN = NaN"
| "fneg NInf = PInf"
| "fneg (Fin a) = Fin (- a)"
| "fneg PInf = NInf"

fun fabs :: "pyfloat \<Rightarrow> pyfloat" where
  "fabs NaN = NaN"
| "fabs NInf = PInf"
| "fabs (Fin a) = Fin \<bar>a\<bar>"
| "fabs PInf = PInf"

fun fadd :: "pyfloat \<Rightarrow> pyfloat \<Rightarrow> pyfloat" where
  "fadd (Fin a) (Fin b) = Fin (a + b)"
| "fadd NaN _ = NaN"
| "fadd _ NaN = NaN"
| "fadd PInf NInf = NaN"
| "fadd NInf PInf = NaN"
| "fadd PInf _ = PInf"
| "fadd _ PInf = PInf"
| "fadd NInf _ = NInf"
| "fadd _ NInf = NInf"

definition fsub :: "pyfloat \<Rightarrow> pyfloat \<Rightarrow> pyfloat" where
  "fsub a b = fadd a (fneg b)"

fun fmul :: "pyfloat \<Rightarrow> pyfloat \<Rightarrow> pyfloat" where
  "fmul (Fin a) (Fin b) = Fin (a * b)"
| "fmul NaN _ = NaN"
| "fmul _ NaN = NaN"
| "fmul a b = inf_of_sign (fsign a * fsign b)"

text \<open>
  Division: a finite value over zero is an infinity of the numerator's sign, zero over
  zero and infinity over infinity are \<open>NaN\<close> (numpy warns and does not raise).
\<close>

fun fdiv :: "pyfloat \<Rightarrow> pyfloat \<Rightarrow> pyfloat" where
  "fdiv (Fin a) (Fin b) = (if b = 0 then inf_of_sign a else Fin (a / b))"
| "fdiv NaN _ = NaN"
| "fdiv _ NaN = NaN"
| "fdiv (Fin a) _ = Fin 0"
| "fdiv a (Fin b) = inf_of_sign (fsign a * (if b < 0 then - 1 else 1))"
| "fdiv _ _ = NaN"

text \<open>
  \<^verbatim>\<open>base ** e\<close> on a numpy double: a negative base with a fractional exponent gives
  \<open>NaN\<close>.
\<close>

definition fpow :: "real \<Rightarrow> real \<Rightarrow> pyfloat" where
  "fpow b e =
     (if 0 < b then Fin (b powr e)
      else if e = 0 then Fin 1
      else if b = 0 then (if 0 < e then Fin 0 else PInf)
      else if e = of_int \<lfloor>e\<rfloor> then Fin (b powi \<lfloor>e\<rfloor>)
      else NaN)"

subsection \<open>Series statistics\<close>

text \<open>\<^verbatim>\<open>Series.mean()\<close>: \<open>NaN\<close> on an empty series.\<close>

definition series_mean :: "real list \<Rightarrow> pyfloat" where
  "series_mean xs = (if xs = [] then NaN else Fin (sum_list xs / real (length xs)))"

text \<open>\<^verbatim>\<open>Series.std()\<close>, the sample deviation (\<^verbatim>\<open>ddof=1\<close>): \<open>NaN\<close> with fewer than two
  observations.\<close>

definition sample_var :: "real list \<Rightarrow> real" where
  "sample_var xs =
     (let m = sum_list xs / real (length xs)
      in sum_list (map (\<lambda>x. (x - m)\<^sup>2) xs) / (real (length xs) - 1))"

definition series_std :: "real list \<Rightarrow> pyfloat" where
  "series_std xs = (if length xs < 2 then NaN else Fin (sqrt (sample_var xs)))"

text \<open>\<^verbatim>\<open>dropna\<close> and the reductions that skip \<open>NaN\<close>.\<close>

definition dropna :: "pyfloat list \<Rightarrow> pyfloat list" where
  "dropna xs = filter (\<lambda>x. \<not> isna x) xs"

definition fmin :: "pyfloat \<Rightarrow> pyfloat \<Rightarrow> pyfloat" where
  "fmin a b = (if flt b a then b else a)"

definition series_min :: "pyfloat list \<Rightarrow> pyfloat" where
  "series_min xs = (case dropna xs of [] \<Rightarrow> NaN | y # ys \<Rightarrow> foldl fmin y ys)"

text \<open>\<^verbatim>\<open>cumprod()\<close> and \<^verbatim>\<open>expanding().max()\<close> on a series without missing values.\<close>

fun cumprod_from :: "real \<Rightarrow> real list \<Rightarrow> real list" where
  "cumprod_from acc [] = []"
| "cumprod_from acc (x # xs) = (acc * x) # cumprod_from (acc * x) xs"

definition cumprod :: "real list \<Rightarrow> real list" where
  "cumprod xs = cumprod_from 1 xs"

fun expanding_max_from :: "real \<Rightarrow> real list \<Rightarrow> real list" where
  "expanding_max_from m [] = []"
| "expanding_max_from m (x # xs) = max m x # expanding_max_from (max m x) xs"

fun expanding_max :: "real list \<Rightarrow> real list" where
  "expanding_max [] = []"
| "expanding_max (x # xs) = x # expanding_max_from x xs"

text \<open>The drawdown series both metric functions compute from the returns.\<close>

definition drawdown_series :: "real list \<Rightarrow> pyfloat list" where
  "drawdown_series returns =
     (let cum_returns = cumprod (map (\<lambda>r. 1 + r) returns);
          running_max = expanding_max cum_returns
      in map2 (\<lambda>c m. fdiv (Fin (c - m)) (Fin m)) cum_returns running_max)"

section \<open>Return and metrics engine\<close>

subsection \<open>\<^verbatim>\<open>calculate_portfolio_metrics\<close>\<close>

text \<open>
  The dictionary the function returns, one field per key. The model is the call
  without a benchmark (\<^verbatim>\<open>benchmark_returns=None\<close>), which returns these eight keys;
  with a benchmark the code adds \<^verbatim>\<open>Alpha\<close> and \<^verbatim>\<open>Beta\<close> and changes none of them.
\<close>

record portfolio_metrics =
  Total_Return :: pyfloat
  Annual_Return :: pyfloat
  Annual_Volatility :: pyfloat
  Sharpe_Ratio :: pyfloat
  Sortino_Ratio :: pyfloat
  Max_Drawdown :: pyfloat
  Calmar_Ratio :: pyfloat
  Win_Rate :: pyfloat

text \<open>
  \<^verbatim>\<open>252 / len(returns)\<close> divides two Python ints, so an empty series raises
  \<^verbatim>\<open>ZeroDivisionError\<close>; every other division is a numpy one.
\<close>

definition calculate_portfolio_metrics :: "real list \<Rightarrow> real \<Rightarrow> py_error + portfolio_metrics" where
  "calculate_portfolio_metrics returns risk_free_rate =
     (if returns = [] then Inl ZeroDivisionError
      else
        let total_return = prod_list (map (\<lambda>r. 1 + r) returns) - 1;
            ann_return = fsub (fpow (1 + total_return) (252 / real (length returns))) (Fin 1);
            ann_vol = fmul (series_std returns) (Fin (sqrt 252));
            sharpe = (if fne ann_vol (Fin 0)
                      then fdiv (fsub ann_return (Fin risk_free_rate)) ann_vol else Fin 0);
            downside_returns = filter (\<lambda>r. r < 0) returns;
            downside_std = fmul (series_std downside_returns) (Fin (sqrt 252));
            sortino = (if fne downside_std (Fin 0)
                       then fdiv (fsub ann_return (Fin risk_free_rate)) downside_std else Fin 0);
            max_drawdown = series_min (drawdown_series returns);
            calmar = (if fne max_drawdown (Fin 0)
                      then fdiv ann_return (fabs max_drawdown) else Fin 0);
            win_rate = Fin (real (length (filter (\<lambda>r. 0 < r) returns)) / real (length returns))
        in Inr \<lparr>Total_Return = Fin total_return, Annual_Return = ann_return,
                 Annual_Volatility = ann_vol, Sharpe_Ratio = sharpe, Sortino_Ratio = sortino,
                 Max_Drawdown = max_drawdown, Calmar_Ratio = calmar, Win_Rate = win_rate\<rparr>)"

section \<open>Technical indicator library\<close>

text \<open>
  \<^verbatim>\<open>Series.rolling(window)\<close> applies a reduction to the trailing \<open>window\<close> observations
  and is \<open>NaN\<close> while fewer are available (\<^verbatim>\<open>min_periods\<close> is the window); a window of
  width \<open>0\<close> has no observation, so its mean and deviation are \<open>NaN\<close> too.
\<close>

definition rolling :: "nat \<Rightarrow> (real list \<Rightarrow> pyfloat) \<Rightarrow> real list \<Rightarrow> pyfloat list" where
  "rolling window f xs =
     map (\<lambda>t. if window = 0 \<or> t + 1 < window then NaN
              else f (take window (drop (t + 1 - window) xs)))
         [0..<length xs]"

text \<open>\<^verbatim>\<open>Series.diff()\<close> without its leading \<open>NaN\<close>.\<close>

definition diffs :: "real list \<Rightarrow> real list" where
  "diffs xs = map2 (\<lambda>p q. q - p) xs (tl xs)"

text \<open>
  \<^verbatim>\<open>calculate_rsi\<close>. \<^verbatim>\<open>delta.where(delta > 0, 0)\<close> puts \<open>0\<close> where the comparison is
  false, also at the leading \<open>NaN\<close> of \<open>delta\<close>.
\<close>

definition calculate_rsi :: "real list \<Rightarrow> nat \<Rightarrow> pyfloat list" where
  "calculate_rsi prices period =
     (let delta = diffs prices;
          ups = (if prices = [] then [] else 0 # map (\<lambda>d. if 0 < d then d else 0) delta);
          downs = (if prices = [] then [] else 0 # map (\<lambda>d. - (if d < 0 then d else 0)) delta);
          gain = rolling period series_mean ups;
          loss = rolling period series_mean downs;
          rs = map2 fdiv gain loss
      in map (\<lambda>r. fsub (Fin 100) (fdiv (Fin 100) (fadd (Fin 1) r))) rs)"

text \<open>\<^verbatim>\<open>Series.ewm(span=span, adjust=False).mean()\<close>: the recursive average with
  \<open>\<alpha> = 2 / (span + 1)\<close>, started at the first observation.\<close>

fun ewm_from :: "real \<Rightarrow> real \<Rightarrow> real list \<Rightarrow> real list" where
  "ewm_from \<alpha> y [] = []"
| "ewm_from \<alpha> y (x # xs) = ((1 - \<alpha>) * y + \<alpha> * x) # ewm_from \<alpha> ((1 - \<alpha>) * y + \<alpha> * x) xs"

fun ewm_mean :: "nat \<Rightarrow> real list \<Rightarrow> real list" where
  "ewm_mean span_n [] = []"
| "ewm_mean span_n (x # xs) = x # ewm_from (2 / (real span_n + 1)) x xs"

definition calculate_macd :: "real list \<Rightarrow> nat \<Rightarrow> nat \<Rightarrow> nat \<Rightarrow> real list \<times> real list \<times> real list" where
  "calculate_macd prices fast slow signal =
     (let exp1 = ewm_mean fast prices;
          exp2 = ewm_mean slow prices;
          macd = map2 (\<lambda>a b. a - b) exp1 exp2;
          signal_line = ewm_mean signal macd;
          histogram = map2 (\<lambda>a b. a - b) macd signal_line
      in (macd, signal_line, histogram))"

definition calculate_bollinger_bands ::
  "real list \<Rightarrow> nat \<Rightarrow> real \<Rightarrow> pyfloat list \<times> pyfloat list \<times> pyfloat list" where
  "calculate_bollinger_bands prices period std_dev =
     (let sma = rolling period series_mean prices;
          std = rolling period series_std prices;
          upper_band = map2 (\<lambda>m s. fadd m (fmul s (Fin std_dev))) sma std;
          lower_band = map2 (\<lambda>m s. fsub m (fmul s (Fin std_dev))) sma std
      in (upper_band, sma, lower_band))"

definition calculate_sma :: "real list \<Rightarrow> nat \<Rightarrow> pyfloat list" where
  "calculate_sma prices period = rolling period series_mean prices"

section \<open>Signal scoring engine\<close>

record trading_signal =
  ts_signal :: string
  ts_action :: string
  ts_score :: int
  ts_confidence :: int
  ts_signals :: "string list"
  ts_rsi :: pyfloat
  ts_macd :: real
  ts_macd_signal :: real
  ts_price_vs_sma50 :: "pyfloat option"
  ts_price_vs_sma200 :: "pyfloat option"

text \<open>
  The four rule blocks of \<^verbatim>\<open>generate_trading_signal\<close>, each giving what it adds to
  \<^verbatim>\<open>score\<close> and what it appends to \<^verbatim>\<open>signals\<close>.
\<close>

definition rsi_rule :: "pyfloat \<Rightarrow> int \<times> string list" where
  "rsi_rule current_rsi =
     (if flt current_rsi (Fin 30) then (2, [''RSI Oversold (Bullish)''])
      else if fgt current_rsi (Fin 70) then (- 2, [''RSI Overbought (Bearish)''])
      else if flt current_rsi (Fin 40) then (1, [''RSI Bullish Lean''])
      else if fgt current_rsi (Fin 60) then (- 1, [''RSI Bearish Lean''])
      else (0, []))"

definition macd_rule :: "real \<Rightarrow> real \<Rightarrow> real \<Rightarrow> real \<Rightarrow> int \<times> string list" where
  "macd_rule current_macd current_macd_signal prev_macd_hist current_macd_hist =
     (if current_macd > current_macd_signal \<and> prev_macd_hist < 0 \<and> 0 < current_macd_hist
      then (2, [''MACD Bullish Crossover''])
      else if current_macd < current_macd_signal \<and> prev_macd_hist > 0 \<and> 0 > current_macd_hist
      then (- 2, [''MACD Bearish Crossover''])
      else if current_macd > current_macd_signal then (1, [''MACD Bullish''])
      else (- 1, [''MACD Bearish'']))"

definition trend_rule :: "real \<Rightarrow> pyfloat \<Rightarrow> pyfloat \<Rightarrow> int \<times> string list" where
  "trend_rule current_price sma_50_last sma_200_last =
     (if \<not> isna sma_50_last \<and> \<not> isna sma_200_last then
        (if fgt (Fin current_price) sma_50_last \<and> fgt sma_50_last sma_200_last
         then (2, [''Strong Uptrend''])
         else if flt (Fin current_price) sma_50_last \<and> flt sma_50_last sma_200_last
         then (- 2, [''Strong Downtrend''])
         else if fgt (Fin current_price) sma_200_last then (1, [''Above 200 SMA''])
         else (- 1, [''Below 200 SMA'']))
      else (0, []))"

definition bollinger_rule :: "real \<Rightarrow> pyfloat \<Rightarrow> pyfloat \<Rightarrow> int \<times> string list" where
  "bollinger_rule current_price bb_lower_last bb_upper_last =
     (if flt (Fin current_price) bb_lower_last then (1, [''Below Lower BB''])
      else if fgt (Fin current_price) bb_upper_last then (- 1, [''Above Upper BB''])
      else (0, []))"

text \<open>The \<^verbatim>\<open>if/elif\<close> chain that turns the score into \<^verbatim>\<open>(signal, action)\<close>.\<close>

definition overall_signal :: "int \<Rightarrow> string \<times> string" where
  "overall_signal score =
     (if score \<ge> 4 then (''STRONG BUY'', ''Accumulate'')
      else if score \<ge> 2 then (''BUY'', ''Accumulate'')
      else if score \<le> - 4 then (''STRONG SELL'', ''Distribute'')
      else if score \<le> - 2 then (''SELL'', ''Distribute'')
      else (''HOLD'', ''Hold''))"

definition price_vs :: "real \<Rightarrow> pyfloat \<Rightarrow> pyfloat option" where
  "price_vs current_price sma_last =
     (if \<not> isna sma_last
      then Some (fmul (fsub (fdiv (Fin current_price) sma_last) (Fin 1)) (Fin 100))
      else None)"

text \<open>
  \<^verbatim>\<open>generate_trading_signal\<close>. \<^verbatim>\<open>prices.iloc[-1]\<close> raises \<^verbatim>\<open>IndexError\<close> on an empty
  series; on a non-empty one every indicator series has the length of \<open>prices\<close>.
\<close>

definition generate_trading_signal :: "real list \<Rightarrow> py_error + trading_signal" where
  "generate_trading_signal prices =
     (if prices = [] then Inl IndexError
      else
        let rsi = calculate_rsi prices 14;
            (macd, macd_signal, macd_hist) = calculate_macd prices 12 26 9;
            (bb_upper, bb_middle, bb_lower) = calculate_bollinger_bands prices 20 2;
            sma_50 = calculate_sma prices 50;
            sma_200 = calculate_sma prices 200;
            current_price = last prices;
            current_rsi = last rsi;
            current_macd = last macd;
            current_macd_signal = last macd_signal;
            current_macd_hist = last macd_hist;
            prev_macd_hist = (if length macd_hist > 1
                              then macd_hist ! (length macd_hist - 2) else 0);
            (s1, l1) = rsi_rule current_rsi;
            (s2, l2) = macd_rule current_macd current_macd_signal prev_macd_hist current_macd_hist;
            (s3, l3) = trend_rule current_price (last sma_50) (last sma_200);
            (s4, l4) = bollinger_rule current_price (last bb_lower) (last bb_upper);
            score = s1 + s2 + s3 + s4;
            signals = l1 @ l2 @ l3 @ l4;
            (signal, action) = overall_signal score;
            confidence = min (\<bar>score\<bar> * 15) 100
        in Inr \<lparr>ts_signal = signal, ts_action = action, ts_score = score,
                 ts_confidence = confidence, ts_signals = signals, ts_rsi = current_rsi,
                 ts_macd = current_macd, ts_macd_signal = current_macd_signal,
                 ts_price_vs_sma50 = price_vs current_price (last sma_50),
                 ts_price_vs_sma200 = price_vs current_price (last sma_200)\<rparr>)"

section \<open>Regime classifier\<close>

subsection \<open>\<^verbatim>\<open>detect_market_regime_enhanced\<close>\<close>

text \<open>
  The five regimes; the source's names carry an emoji in front:
  \<^verbatim>\<open>High Volatility / Crisis\<close>, \<^verbatim>\<open>Bear Market\<close>, \<^verbatim>\<open>Bull Market\<close>, \<^verbatim>\<open>Recovery\<close>,
  \<^verbatim>\<open>Neutral / Consolidation\<close>.
\<close>

datatype regime = High_Volatility_Crisis | Bear_Market | Bull_Market | Recovery
  | Neutral_Consolidation

record allocation =
  stocks :: nat
  bonds :: nat
  cash :: nat

text \<open>The entries of \<^verbatim>\<open>signals\<close> are formatted strings; the model keeps the text's kind
  and the number it prints.\<close>

datatype regime_signal =
    Volatility_extremely_high pyfloat
  | Negative_momentum pyfloat
  | Death_Cross
  | Strong_positive_momentum pyfloat
  | Golden_Cross
  | Recovery_in_progress pyfloat
  | Market_lacking_clear_direction

record regime_metrics =
  rm_volatility :: pyfloat
  rm_momentum_60d :: pyfloat
  rm_recent_return_20d :: pyfloat
  rm_recent_return_60d :: pyfloat
  rm_trend :: string
  rm_price_vs_sma200 :: "pyfloat option"

record regime_report =
  rr_regime :: regime
  rr_confidence :: string
  rr_action :: string
  rr_allocation :: allocation
  rr_color :: string
  rr_signals :: "regime_signal list"
  rr_metrics :: regime_metrics

text \<open>\<^verbatim>\<open>Series.tail(n)\<close>, and the trailing return \<^verbatim>\<open>(prices.iloc[-1] / prices.iloc[-n] - 1) * 100\<close>
  the code takes when \<^verbatim>\<open>len(prices) >= n\<close>.\<close>

definition tail :: "nat \<Rightarrow> 'a list \<Rightarrow> 'a list" where
  "tail n xs = drop (length xs - n) xs"

definition recent_return :: "real list \<Rightarrow> nat \<Rightarrow> pyfloat" where
  "recent_return prices n =
     (if length prices \<ge> n
      then fmul (fsub (fdiv (Fin (last prices)) (Fin (prices ! (length prices - n)))) (Fin 1))
             (Fin 100)
      else Fin 0)"

definition detect_market_regime_enhanced :: "real list \<Rightarrow> real list \<Rightarrow> regime_report" where
  "detect_market_regime_enhanced returns prices =
     (let vol_window = min 60 (length returns);
          volatility = fmul (series_std (tail vol_window returns)) (Fin (sqrt 252));
          recent_return_20d = recent_return prices 20;
          recent_return_60d = recent_return prices 60;
          momentum_60d = fdiv recent_return_60d (Fin 100);
          sma_50 = rolling 50 series_mean prices;
          sma_200 = rolling 200 series_mean prices;
          price_vs_sma200 =
            (if length sma_200 > 0 \<and> \<not> isna (last sma_200)
             then Some (fmul (fsub (fdiv (Fin (last prices)) (last sma_200)) (Fin 1)) (Fin 100))
             else None);
          trend =
            (if length sma_50 \<ge> 50 \<and> length sma_200 \<ge> 200 then
               (if fgt (last sma_50) (last sma_200) then ''Bullish''
                else if flt (last sma_50) (last sma_200) then ''Bearish''
                else ''Neutral'')
             else ''Insufficient Data'');
          metrics = \<lparr>rm_volatility = volatility, rm_momentum_60d = momentum_60d,
                     rm_recent_return_20d = recent_return_20d,
                     rm_recent_return_60d = recent_return_60d, rm_trend = trend,
                     rm_price_vs_sma200 = price_vs_sma200\<rparr>
      in
        if fgt volatility (Fin (35/100)) then
          \<lparr>rr_regime = High_Volatility_Crisis, rr_confidence = ''High'',
           rr_action = ''Reduce equity exposure to 40-50%. Increase cash and defensive positions. Avoid new positions until volatility subsides.'',
           rr_allocation = \<lparr>stocks = 45, bonds = 45, cash = 10\<rparr>, rr_color = ''error'',
           rr_signals = [Volatility_extremely_high (fmul volatility (Fin 100))],
           rr_metrics = metrics\<rparr>
        else if flt momentum_60d (Fin (- (10/100))) \<and> fgt volatility (Fin (25/100)) then
          \<lparr>rr_regime = Bear_Market,
           rr_confidence = (if fgt (fabs momentum_60d) (Fin (15/100)) then ''High'' else ''Medium''),
           rr_action = ''Reduce equity to 50-60%. Focus on quality, dividend-paying stocks. Consider defensive sectors.'',
           rr_allocation = \<lparr>stocks = 55, bonds = 40, cash = 5\<rparr>, rr_color = ''error'',
           rr_signals = Negative_momentum (fmul momentum_60d (Fin 100))
                        # (if trend = ''Bearish'' then [Death_Cross] else []),
           rr_metrics = metrics\<rparr>
        else if fgt momentum_60d (Fin (15/100)) \<and> flt volatility (Fin (20/100)) then
          \<lparr>rr_regime = Bull_Market, rr_confidence = ''High'',
           rr_action = ''Maintain 70-80% equity allocation. This is accumulation phase. Focus on growth and momentum.'',
           rr_allocation = \<lparr>stocks = 75, bonds = 22, cash = 3\<rparr>, rr_color = ''success'',
           rr_signals = Strong_positive_momentum (fmul momentum_60d (Fin 100))
                        # (if trend = ''Bullish'' then [Golden_Cross] else []),
           rr_metrics = metrics\<rparr>
        else if fgt momentum_60d (Fin 0) \<and> fgt recent_return_20d (Fin 0) then
          \<lparr>rr_regime = Recovery, rr_confidence = ''Medium'',
           rr_action = ''Gradually increase equity to 60-70%. Good time to add positions. Monitor for continued strength.'',
           rr_allocation = \<lparr>stocks = 65, bonds = 30, cash = 5\<rparr>, rr_color = ''warning'',
           rr_signals = [Recovery_in_progress (fmul momentum_60d (Fin 100))],
           rr_metrics = metrics\<rparr>
        else
          \<lparr>rr_regime = Neutral_Consolidation, rr_confidence = ''Medium'',
           rr_action = ''Maintain balanced 60/40 portfolio. Wait for clearer directional signals before making changes.'',
           rr_allocation = \<lparr>stocks = 60, bonds = 35, cash = 5\<rparr>, rr_color = ''info'',
           rr_signals = [Market_lacking_clear_direction],
           rr_metrics = metrics\<rparr>)"

text \<open>
  The classification as the specification words it: the first rule that matches, over
  the volatility, the 60-day momentum and the 20-day return, and the target allocation
  each regime carries.
\<close>

definition regime_by_priority :: "pyfloat \<Rightarrow> pyfloat \<Rightarrow> pyfloat \<Rightarrow> regime" where
  "regime_by_priority volatility momentum return_20d =
     (if fgt volatility (Fin (35/100)) then High_Volatility_Crisis
      else if flt momentum (Fin (- (10/100))) \<and> fgt volatility (Fin (25/100)) then Bear_Market
      else if fgt momentum (Fin (15/100)) \<and> flt volatility (Fin (20/100)) then Bull_Market
      else if fgt momentum (Fin 0) \<and> fgt return_20d (Fin 0) then Recovery
      else Neutral_Consolidation)"

fun target_allocation :: "regime \<Rightarrow> allocation" where
  "target_allocation High_Volatility_Crisis = \<lparr>stocks = 45, bonds = 45, cash = 10\<rparr>"
| "target_allocation Bear_Market = \<lparr>stocks = 55, bonds = 40, cash = 5\<rparr>"
| "target_allocation Bull_Market = \<lparr>stocks = 75, bonds = 22, cash = 3\<rparr>"
| "target_allocation Recovery = \<lparr>stocks = 65, bonds = 30, cash = 5\<rparr>"
| "target_allocation Neutral_Consolidation = \<lparr>stocks = 60, bonds = 35, cash = 5\<rparr>"

subsection \<open>\<^verbatim>\<open>detect_market_regimes\<close>\<close>

text \<open>\<^verbatim>\<open>Series.median()\<close> skips \<open>NaN\<close>; the rolling deviation of a finite series holds finite
  values and \<open>NaN\<close> only.\<close>

definition finite_values :: "pyfloat list \<Rightarrow> real list" where
  "finite_values xs = List.map_filter (\<lambda>x. case x of Fin r \<Rightarrow> Some r | _ \<Rightarrow> None) xs"

definition series_median :: "pyfloat list \<Rightarrow> pyfloat" where
  "series_median xs =
     (let s = sort (finite_values xs); n = length s
      in if n = 0 then NaN
         else if odd n then Fin (s ! (n div 2))
         else Fin ((s ! (n div 2 - 1) + s ! (n div 2)) / 2))"

text \<open>\<^verbatim>\<open>regimes[mask] = label\<close>.\<close>

definition assign_where :: "bool list \<Rightarrow> 'a \<Rightarrow> 'a list \<Rightarrow> 'a list" where
  "assign_where selected v xs = map2 (\<lambda>b x. if b then v else x) selected xs"

definition detect_market_regimes :: "real list \<Rightarrow> nat \<Rightarrow> string list" where
  "detect_market_regimes returns lookback =
     (let rolling_returns = map (\<lambda>m. fmul m (Fin 252)) (rolling lookback series_mean returns);
          rolling_vol = map (\<lambda>s. fmul s (Fin (sqrt 252))) (rolling lookback series_std returns);
          vol_median = series_median rolling_vol;
          return_positive = map (\<lambda>r. fgt r (Fin (2/100))) rolling_returns;
          return_negative = map (\<lambda>r. flt r (Fin (- (2/100)))) rolling_returns;
          vol_high = map (\<lambda>v. fgt v vol_median) rolling_vol;
          regimes0 = replicate (length returns) ''Sideways/Choppy'';
          regimes1 = assign_where (map2 (\<lambda>p h. p \<and> \<not> h) return_positive vol_high)
                       ''Bull Market (Low Vol)'' regimes0;
          regimes2 = assign_where (map2 (\<lambda>p h. p \<and> h) return_positive vol_high)
                       ''Bull Market (High Vol)'' regimes1;
          regimes3 = assign_where (map2 (\<lambda>p h. p \<and> \<not> h) return_negative vol_high)
                       ''Bear Market (Low Vol)'' regimes2;
          regimes4 = assign_where (map2 (\<lambda>p h. p \<and> h) return_negative vol_high)
                       ''Bear Market (High Vol)'' regimes3
      in regimes4)"

text \<open>
  The classification as the specification words it: a date's trailing window, the
  full-history median of the rolling volatility, and the label chosen from the
  annualized rolling mean and the rolling volatility.
\<close>

definition trailing_window :: "real list \<Rightarrow> nat \<Rightarrow> nat \<Rightarrow> real list" where
  "trailing_window returns lookback t = take lookback (drop (t + 1 - lookback) returns)"

definition median_volatility :: "real list \<Rightarrow> nat \<Rightarrow> pyfloat" where
  "median_volatility returns lookback =
     series_median (map (\<lambda>t. fmul (if lookback = 0 \<or> t + 1 < lookback then NaN
                                     else series_std (trailing_window returns lookback t))
                                 (Fin (sqrt 252)))
                        [0..<length returns])"

definition regime_label :: "pyfloat \<Rightarrow> pyfloat \<Rightarrow> pyfloat \<Rightarrow> string" where
  "regime_label rolling_return rolling_volatility vol_median =
     (if fgt rolling_return (Fin (2/100)) then
        (if fgt rolling_volatility vol_median then ''Bull Market (High Vol)''
         else ''Bull Market (Low Vol)'')
      else if flt rolling_return (Fin (- (2/100))) then
        (if fgt rolling_volatility vol_median then ''Bear Market (High Vol)''
         else ''Bear Market (Low Vol)'')
      else ''Sideways/Choppy'')"

definition regime_labels :: "string list" where
  "regime_labels =
     [''Bull Market (Low Vol)'', ''Bull Market (High Vol)'', ''Bear Market (Low Vol)'',
      ''Bear Market (High Vol)'', ''Sideways/Choppy'']"

section \<open>Grading and benchmark engine\<close>

subsection \<open>\<^verbatim>\<open>grade_metric\<close>\<close>

text \<open>
  An entry of \<^verbatim>\<open>grading_criteria\<close>: the explanation under \<^verbatim>\<open>'ranges'\<close> and, per grade
  letter, the bands \<open>(low, high)\<close>. \<^verbatim>\<open>Beta\<close> lists two bands for some grades; every other
  metric has one band per grade, held here as a one-element list.
\<close>

record criteria =
  ranges :: string
  bands :: "(string \<times> (pyfloat \<times> pyfloat) list) list"

definition grading_criteria :: "(string \<times> criteria) list" where
  "grading_criteria =
    [(''Annual Return'',
        \<lparr>ranges = ''A: >12%, B: 8-12%, C: 4-8%, D: 0-4%, F: <0%'',
         bands = [(''A'', [(Fin (12/100), PInf)]), (''B'', [(Fin (8/100), Fin (12/100))]),
                  (''C'', [(Fin (4/100), Fin (8/100))]), (''D'', [(Fin 0, Fin (4/100))]),
                  (''F'', [(NInf, Fin 0)])]\<rparr>),
     (''Sharpe Ratio'',
        \<lparr>ranges = ''A: >1.0, B: 0.5-1.0, C: 0.2-0.5, D: 0-0.2, F: <0'',
         bands = [(''A'', [(Fin 1, PInf)]), (''B'', [(Fin (5/10), Fin 1)]),
                  (''C'', [(Fin (2/10), Fin (5/10))]), (''D'', [(Fin 0, Fin (2/10))]),
                  (''F'', [(NInf, Fin 0)])]\<rparr>),
     (''Sortino Ratio'',
        \<lparr>ranges = ''A: >1.5, B: 0.9-1.5, C: 0.5-0.9, D: 0.2-0.5, F: <0.2'',
         bands = [(''A'', [(Fin (15/10), PInf)]), (''B'', [(Fin (9/10), Fin (15/10))]),
                  (''C'', [(Fin (5/10), Fin (9/10))]), (''D'', [(Fin (2/10), Fin (5/10))]),
                  (''F'', [(NInf, Fin (2/10))])]\<rparr>),
     (''Max Drawdown'',
        \<lparr>ranges = ''A: >-15%, B: -15% to -25%, C: -25% to -35%, D: -35% to -50%, F: <-50%'',
         bands = [(''A'', [(Fin (- (15/100)), Fin 0)]),
                  (''B'', [(Fin (- (25/100)), Fin (- (15/100)))]),
                  (''C'', [(Fin (- (35/100)), Fin (- (25/100)))]),
                  (''D'', [(Fin (- (50/100)), Fin (- (35/100)))]),
                  (''F'', [(NInf, Fin (- (50/100)))])]\<rparr>),
     (''Volatility'',
        \<lparr>ranges = ''A: <12%, B: 12-16%, C: 16-20%, D: 20-25%, F: >25%'',
         bands = [(''A'', [(Fin 0, Fin (12/100))]), (''B'', [(Fin (12/100), Fin (16/100))]),
                  (''C'', [(Fin (16/100), Fin (20/100))]),
                  (''D'', [(Fin (20/100), Fin (25/100))]),
                  (''F'', [(Fin (25/100), PInf)])]\<rparr>),
     (''Calmar Ratio'',
        \<lparr>ranges = ''A: >1.0, B: 0.5-1.0, C: 0.25-0.5, D: 0.1-0.25, F: <0.1'',
         bands = [(''A'', [(Fin 1, PInf)]), (''B'', [(Fin (5/10), Fin 1)]),
                  (''C'', [(Fin (25/100), Fin (5/10))]), (''D'', [(Fin (1/10), Fin (25/100))]),
                  (''F'', [(NInf, Fin (1/10))])]\<rparr>),
     (''Win Rate'',
        \<lparr>ranges = ''A: >60%, B: 55-60%, C: 50-55%, D: 45-50%, F: <45%'',
         bands = [(''A'', [(Fin (60/100), Fin 1)]), (''B'', [(Fin (55/100), Fin (60/100))]),
                  (''C'', [(Fin (50/100), Fin (55/100))]),
                  (''D'', [(Fin (45/100), Fin (50/100))]),
                  (''F'', [(Fin 0, Fin (45/100))])]\<rparr>),
     (''Best Month'',
        \<lparr>ranges = ''A: >12%, B: 8-12%, C: 4-8%, D: 1-4%, F: <1%'',
         bands = [(''A'', [(Fin (12/100), PInf)]), (''B'', [(Fin (8/100), Fin (12/100))]),
                  (''C'', [(Fin (4/100), Fin (8/100))]), (''D'', [(Fin (1/100), Fin (4/100))]),
                  (''F'', [(NInf, Fin (1/100))])]\<rparr>),
     (''Worst Month'',
        \<lparr>ranges = ''A: >-8%, B: -8% to -12%, C: -12% to -16%, D: -16% to -20%, F: <-20%'',
         bands = [(''A'', [(Fin (- (8/100)), Fin 0)]),
                  (''B'', [(Fin (- (12/100)), Fin (- (8/100)))]),
                  (''C'', [(Fin (- (16/100)), Fin (- (12/100)))]),
                  (''D'', [(Fin (- (20/100)), Fin (- (16/100)))]),
                  (''F'', [(NInf, Fin (- (20/100)))])]\<rparr>),
     (''Alpha'',
        \<lparr>ranges = ''A: >2%, B: 0.5-2%, C: -0.5% to 0.5%, D: -2% to -0.5%, F: <-2%'',
         bands = [(''A'', [(Fin (2/100), PInf)]), (''B'', [(Fin (5/1000), Fin (2/100))]),
                  (''C'', [(Fin (- (5/1000)), Fin (5/1000))]),
                  (''D'', [(Fin (- (2/100)), Fin (- (5/1000)))]),
                  (''F'', [(NInf, Fin (- (2/100)))])]\<rparr>),
     (''Beta'',
        \<lparr>ranges = ''A: 0.85-1.15, B: 0.7-0.85 or 1.15-1.3, C: 0.5-0.7 or 1.3-1.5, D: 0.3-0.5 or 1.5-1.7, F: <0.3 or >1.7'',
         bands = [(''A'', [(Fin (85/100), Fin (115/100))]),
                  (''B'', [(Fin (7/10), Fin (85/100)), (Fin (115/100), Fin (13/10))]),
                  (''C'', [(Fin (5/10), Fin (7/10)), (Fin (13/10), Fin (15/10))]),
                  (''D'', [(Fin (3/10), Fin (5/10)), (Fin (15/10), Fin (17/10))]),
                  (''F'', [(Fin 0, Fin (3/10)), (Fin (17/10), PInf)])]\<rparr>),
     (''Avg Recovery Days'',
        \<lparr>ranges = ''A: <120 days, B: 120-240 days, C: 240-365 days, D: 365-540 days, F: >540 days'',
         bands = [(''A'', [(Fin 0, Fin 120)]), (''B'', [(Fin 120, Fin 240)]),
                  (''C'', [(Fin 240, Fin 365)]), (''D'', [(Fin 365, Fin 540)]),
                  (''F'', [(Fin 540, PInf)])]\<rparr>)]"

text \<open>\<^verbatim>\<open>criteria[grade]\<close> for a grade letter of the loop.\<close>

definition grade_bands :: "criteria \<Rightarrow> string \<Rightarrow> (pyfloat \<times> pyfloat) list" where
  "grade_bands c grade = (case map_of (bands c) grade of Some bs \<Rightarrow> bs | None \<Rightarrow> [])"

text \<open>The inner loop \<^verbatim>\<open>for low, high in criteria[grade]: if low <= value < high\<close>.\<close>

fun in_some_band :: "pyfloat \<Rightarrow> (pyfloat \<times> pyfloat) list \<Rightarrow> bool" where
  "in_some_band v [] = False"
| "in_some_band v ((low, high) # bs) = (if fle low v \<and> flt v high then True else in_some_band v bs)"

text \<open>The outer loop over \<^verbatim>\<open>['A', 'B', 'C', 'D', 'F']\<close>, and the \<^verbatim>\<open>return 'F'\<close> after it.\<close>

fun first_grade :: "criteria \<Rightarrow> pyfloat \<Rightarrow> string list \<Rightarrow> string" where
  "first_grade c v [] = ''F''"
| "first_grade c v (grade # grades) =
     (if in_some_band v (grade_bands c grade) then grade else first_grade c v grades)"

definition grade_metric :: "string \<Rightarrow> pyfloat \<Rightarrow> string \<times> string" where
  "grade_metric metric_name v =
     (case map_of grading_criteria metric_name of
        None \<Rightarrow> (''N/A'', ''N/A'')
      | Some c \<Rightarrow> (first_grade c v [''A'', ''B'', ''C'', ''D'', ''F''], ranges c))"

text \<open>A band as the half-open interval \<open>low \<le> value < high\<close>.\<close>

definition in_band :: "pyfloat \<Rightarrow> pyfloat \<times> pyfloat \<Rightarrow> bool" where
  "in_band v b = (fle (fst b) v \<and> flt v (snd b))"

subsection \<open>Percentile ranking\<close>

text \<open>
  The percentile block of the benchmark comparison tab, over the portfolio's Sharpe
  ratio and the Sharpe ratios of \<^verbatim>\<open>benchmarks_metrics\<close>; the block runs only when at least
  one benchmark was loaded.
\<close>

definition percentile_ranking :: "pyfloat \<Rightarrow> pyfloat list \<Rightarrow> real" where
  "percentile_ranking portfolio_sharpe benchmark_sharpes =
     (let all_sharpes = portfolio_sharpe # benchmark_sharpes;
          better_than_count = length (filter (\<lambda>s. fgt portfolio_sharpe s) all_sharpes)
      in (real better_than_count / real (length all_sharpes)) * 100)"

text \<open>The count the same tab shows as ``Benchmarks Beaten''.\<close>

definition better_count :: "pyfloat \<Rightarrow> pyfloat list \<Rightarrow> nat" where
  "better_count portfolio_sharpe benchmark_sharpes =
     length (filter (\<lambda>s. fgt portfolio_sharpe s) benchmark_sharpes)"

section \<open>Forward risk simulator\<close>

text \<open>
  \<^verbatim>\<open>Series.quantile(q)\<close> with the default linear interpolation: on the sorted
  observations, the value at the position \<open>(n - 1) * q\<close>, interpolated between its two
  neighbours; \<open>NaN\<close> on an empty series.
\<close>

definition quantile :: "real list \<Rightarrow> real \<Rightarrow> pyfloat" where
  "quantile xs q =
     (if xs = [] then NaN
      else
        let s = sort xs;
            h = (real (length xs) - 1) * q;
            lo = nat \<lfloor>h\<rfloor>;
            hi = min (lo + 1) (length xs - 1)
        in Fin (s ! lo + (h - real lo) * (s ! hi - s ! lo)))"

record forward_risk_metrics =
  Expected_Annual_Return :: pyfloat
  Expected_Volatility :: pyfloat
  VaR_95 :: pyfloat
  VaR_99 :: pyfloat
  CVaR_95 :: pyfloat
  CVaR_99 :: pyfloat
  Probability_of_Daily_Loss :: pyfloat
  Estimated_Max_Drawdown :: pyfloat

text \<open>
  The double that \<^verbatim>\<open>Series.mean()\<close> returns is the exact mean up to the rounding of
  the summation and the division; pandas is not part of the repository. The function
  \<open>float_mean\<close> stands for it: the value computed for a non-empty list of
  observations. \<open>exact_mean\<close> is the mean without rounding, and
  \<open>mean_error_within\<close> bounds the rounding error on one list.
\<close>

definition exact_mean :: "real list \<Rightarrow> real" where
  "exact_mean xs = sum_list xs / real (length xs)"

definition rounded_series_mean :: "(real list \<Rightarrow> real) \<Rightarrow> real list \<Rightarrow> pyfloat" where
  "rounded_series_mean float_mean xs = (if xs = [] then NaN else Fin (float_mean xs))"

definition mean_error_within :: "real \<Rightarrow> (real list \<Rightarrow> real) \<Rightarrow> real list \<Rightarrow> bool" where
  "mean_error_within eps float_mean xs = (\<bar>float_mean xs - exact_mean xs\<bar> \<le> eps)"

text \<open>\<^verbatim>\<open>returns[returns <= var]\<close>: the observations at or below a quantile.\<close>

definition tail_at_or_below :: "real list \<Rightarrow> pyfloat \<Rightarrow> real list" where
  "tail_at_or_below returns v = filter (\<lambda>r. fle (Fin r) v) returns"

text \<open>
  \<^verbatim>\<open>calculate_forward_risk_metrics\<close>. The parameter \<^verbatim>\<open>confidence_level\<close> is not read: the
  levels \<open>0.95\<close> and \<open>0.99\<close> are written into the body.
\<close>

definition calculate_forward_risk_metrics ::
  "(real list \<Rightarrow> real) \<Rightarrow> real list \<Rightarrow> real \<Rightarrow> forward_risk_metrics" where
  "calculate_forward_risk_metrics float_mean returns confidence_level =
     (let expected_return = fmul (rounded_series_mean float_mean returns) (Fin 252);
          expected_vol = fmul (series_std returns) (Fin (sqrt 252));
          var_95 = quantile returns (1 - 95/100);
          var_99 = quantile returns (1 - 99/100);
          cvar_95 = rounded_series_mean float_mean (tail_at_or_below returns var_95);
          cvar_99 = rounded_series_mean float_mean (tail_at_or_below returns var_99);
          prob_loss = fdiv (Fin (real (length (filter (\<lambda>r. r < 0) returns))))
                        (Fin (real (length returns)));
          estimated_max_dd = series_min (drawdown_series returns)
      in \<lparr>Expected_Annual_Return = expected_return, Expected_Volatility = expected_vol,
          VaR_95 = var_95, VaR_99 = var_99, CVaR_95 = cvar_95, CVaR_99 = cvar_99,
          Probability_of_Daily_Loss = prob_loss, Estimated_Max_Drawdown = estimated_max_dd\<rparr>)"

text \<open>The interpolation \<^verbatim>\<open>quantile\<close> makes on the sorted observations, as a function of
  the position \<open>h\<close>.\<close>

definition interpolate :: "real list \<Rightarrow> real \<Rightarrow> real" where
  "interpolate s h =
     (let lo = nat \<lfloor>h\<rfloor>; hi = min (lo + 1) (length s - 1)
      in s ! lo + (h - real lo) * (s ! hi - s ! lo))"

section \<open>Portfolio returns and optimizer\<close>

text \<open>
  A price matrix: one row per trading date, one column per asset, no missing value.
  The number of columns is kept apart from the rows, as a frame without rows still
  has its columns.
\<close>

record price_matrix =
  n_assets :: nat
  rows :: "real list list"

definition wf_matrix :: "price_matrix \<Rightarrow> bool" where
  "wf_matrix prices = list_all (\<lambda>row. length row = n_assets prices) (rows prices)"

text \<open>\<^verbatim>\<open>DataFrame.pct_change()\<close>, computed as \<^verbatim>\<open>data / data.shift(1) - 1\<close>: the first
  row is all \<open>NaN\<close>.\<close>

definition pct_change :: "price_matrix \<Rightarrow> pyfloat list list" where
  "pct_change prices =
     (case rows prices of
        [] \<Rightarrow> []
      | r # rs \<Rightarrow>
          replicate (n_assets prices) NaN
          # map2 (\<lambda>prev cur. map2 (\<lambda>p q. fsub (fdiv (Fin q) (Fin p)) (Fin 1)) prev cur)
              (r # rs) rs)"

text \<open>\<^verbatim>\<open>DataFrame.dropna()\<close> drops the rows that hold a \<open>NaN\<close>; \<^verbatim>\<open>sum(axis=1)\<close> adds a
  row up and skips \<open>NaN\<close>.\<close>

definition dropna_rows :: "pyfloat list list \<Rightarrow> pyfloat list list" where
  "dropna_rows frame = filter (\<lambda>row. \<not> list_ex isna row) frame"

definition row_sum :: "pyfloat list \<Rightarrow> pyfloat" where
  "row_sum row = foldl fadd (Fin 0) (dropna row)"

text \<open>
  \<^verbatim>\<open>calculate_portfolio_returns\<close>. \<^verbatim>\<open>weights\<close> is a list or an array, multiplied into
  the columns by position; pandas raises \<^verbatim>\<open>ValueError\<close> when its length is not the
  number of columns.
\<close>

definition calculate_portfolio_returns :: "price_matrix \<Rightarrow> real list \<Rightarrow> py_error + pyfloat list" where
  "calculate_portfolio_returns prices weights =
     (let returns = dropna_rows (pct_change prices)
      in if length weights \<noteq> n_assets prices then Inl ValueError
         else Inr (map (\<lambda>row. row_sum (map2 (\<lambda>r w. fmul r (Fin w)) row weights)) returns))"

text \<open>
  What \<^verbatim>\<open>scipy.optimize.minimize\<close> returns: the field \<^verbatim>\<open>x\<close> and the flag
  \<^verbatim>\<open>success\<close>. The solver is not part of the repository: \<^verbatim>\<open>optimize_portfolio\<close> takes
  it as a parameter, called with the prices the objective \<^verbatim>\<open>neg_sharpe\<close> is built
  from, the initial guess and the bounds; the constraint is always \<open>sum x = 1\<close>.
\<close>

record optimize_result =
  res_x :: "real list"
  res_success :: bool

type_synonym solver = "price_matrix \<Rightarrow> real list \<Rightarrow> (real \<times> real) list \<Rightarrow> optimize_result"

text \<open>
  \<^verbatim>\<open>optimize_portfolio\<close>. \<^verbatim>\<open>1. / num_assets\<close> raises \<^verbatim>\<open>ZeroDivisionError\<close> without
  columns; with a method other than \<^verbatim>\<open>'max_sharpe'\<close> the name \<^verbatim>\<open>result\<close> is never
  bound and the last line raises \<^verbatim>\<open>UnboundLocalError\<close>.
\<close>

definition optimize_portfolio :: "solver \<Rightarrow> price_matrix \<Rightarrow> string \<Rightarrow> py_error + real list" where
  "optimize_portfolio minimize prices method =
     (let num_assets = n_assets prices
      in if num_assets = 0 then Inl ZeroDivisionError
         else
           let bounds = replicate num_assets (0, 1);
               initial_guess = replicate num_assets (1 / real num_assets)
           in if method = ''max_sharpe'' then
                (let result = minimize prices initial_guess bounds
                 in Inr (if res_success result then res_x result else initial_guess))
              else Inl UnboundLocalError)"

text \<open>A weight vector that is long-only and fully invested up to a tolerance.\<close>

definition feasible_within :: "real \<Rightarrow> real list \<Rightarrow> bool" where
  "feasible_within tol w =
     (list_all (\<lambda>wi. - tol \<le> wi \<and> wi \<le> 1 + tol) w \<and> \<bar>sum_list w - 1\<bar> \<le> tol)"

text \<open>The scenario of the specification: two assets whose daily returns are
  \<open>[0.01, -0.01, 0.02, -0.02]\<close> and \<open>[0, 0, 0, 0]\<close>.\<close>

definition scenario_prices :: price_matrix where
  "scenario_prices =
     \<lparr>n_assets = 2,
      rows = [[100, 50], [101, 50], [9999/100, 50], [1019898/10000, 50], [99950004/1000000, 50]]\<rparr>"

section \<open>Verification\<close>

subsection \<open>Facts about float comparisons and reductions\<close>

lemma fle_refl: "a \<noteq> NaN \<Longrightarrow> fle a a"
  by (cases a) auto

lemma fle_trans: "fle a b \<Longrightarrow> fle b c \<Longrightarrow> fle a c"
  by (cases a; cases b; cases c) auto

lemma flt_imp_fle: "flt a b \<Longrightarrow> fle a b"
  by (cases a; cases b) auto

lemma fdiv_NaN_right: "fdiv a NaN = NaN"
  by (cases a) auto

lemma fmin_le_left: "a \<noteq> NaN \<Longrightarrow> fle (fmin a b) a"
  by (simp add: fmin_def flt_imp_fle fle_refl)

lemma foldl_fmin_le: "a \<noteq> NaN \<Longrightarrow> NaN \<notin> set ys \<Longrightarrow> fle (foldl fmin a ys) a"
proof (induction ys arbitrary: a)
  case Nil
  then show ?case by (simp add: fle_refl)
next
  case (Cons y ys)
  have "fmin a y \<noteq> NaN" using Cons.prems by (auto simp: fmin_def)
  then have "fle (foldl fmin (fmin a y) ys) (fmin a y)" using Cons by simp
  then show ?case using fmin_le_left [OF Cons.prems(1)] by (auto intro: fle_trans)
qed

lemma series_min_le_first: "x \<noteq> NaN \<Longrightarrow> fle (series_min (x # xs)) x"
  by (simp add: series_min_def dropna_def isna_def foldl_fmin_le)

subsection \<open>Portfolio metrics on degenerate series\<close>

text \<open>The first drawdown is \<open>0\<close> unless the first return is \<open>-1\<close>, where it is \<open>0 / 0\<close>.\<close>

lemma drawdown_head:
  "1 + r \<noteq> 0 \<Longrightarrow> \<exists>ds. drawdown_series (r # rs) = Fin 0 # ds"
  by (simp add: drawdown_series_def cumprod_def)

lemma max_drawdown_nonpos:
  assumes "returns \<noteq> []" "hd returns \<noteq> - 1"
  shows "fle (series_min (drawdown_series returns)) (Fin 0)"
proof -
  obtain r rs where rs: "returns = r # rs" using assms(1) by (cases returns) auto
  then have "1 + r \<noteq> 0" using assms(2) by auto
  then obtain ds where "drawdown_series returns = Fin 0 # ds"
    using drawdown_head rs by blast
  then show ?thesis by (simp add: series_min_le_first)
qed

lemma sample_var_nonneg: "2 \<le> length xs \<Longrightarrow> 0 \<le> sample_var xs"
  unfolding sample_var_def Let_def
  by (intro divide_nonneg_nonneg sum_list_nonneg) auto

lemma annual_volatility_nonneg:
  "2 \<le> length xs \<Longrightarrow> fge (fmul (series_std xs) (Fin (sqrt 252))) (Fin 0)"
  by (simp add: series_std_def fge_def sample_var_nonneg)

text \<open>
  The Sortino guard \<^verbatim>\<open>if downside_std != 0 else 0\<close> does not fire on \<open>NaN\<close>: with
  fewer than two negative returns the downside deviation is \<open>NaN\<close>, and so is the ratio.
\<close>

lemma sortino_nan_without_downside_sample:
  assumes "returns \<noteq> []" "length (filter (\<lambda>r. r < 0) returns) < 2"
  shows "\<exists>m. calculate_portfolio_metrics returns rf = Inr m \<and> Sortino_Ratio m = NaN"
  using assms
  by (simp add: calculate_portfolio_metrics_def Let_def series_std_def fne_def feq_def
      fdiv_NaN_right)

text \<open>A series of one observation does not raise.\<close>

lemma single_observation_returns:
  "\<exists>m. calculate_portfolio_metrics [r] rf = Inr m"
  by (simp add: calculate_portfolio_metrics_def Let_def)

text \<open>
  Claim C2. On the flat series \<open>[0, 0, 0]\<close> with the default risk-free rate the function
  returns Sharpe, Calmar, maximum drawdown and win rate \<open>0\<close>, and a Sortino ratio that is
  \<open>NaN\<close>, not \<open>0\<close>: the downside set is empty, its deviation is \<open>NaN\<close>, and \<open>NaN != 0\<close>
  holds.
\<close>

theorem flat_series_sortino_nan:
  "calculate_portfolio_metrics [0, 0, 0] (1/50) =
     Inr \<lparr>Total_Return = Fin 0, Annual_Return = Fin 0, Annual_Volatility = Fin 0,
          Sharpe_Ratio = Fin 0, Sortino_Ratio = NaN, Max_Drawdown = Fin 0,
          Calmar_Ratio = Fin 0, Win_Rate = Fin 0\<rparr>"
  by (simp add: calculate_portfolio_metrics_def series_std_def sample_var_def fpow_def fsub_def
      fne_def feq_def drawdown_series_def cumprod_def series_min_def dropna_def isna_def fmin_def
      Let_def)

text \<open>
  Claim C3, as amended. With at least two observations the annualized volatility is
  \<open>\<ge> 0\<close>; on a non-empty series whose first return is not \<open>-1\<close> the maximum drawdown
  is \<open>\<le> 0\<close>.
\<close>

theorem metrics_volatility_drawdown_sign:
  "(2 \<le> length returns \<longrightarrow>
      (\<exists>m. calculate_portfolio_metrics returns rf = Inr m \<and> fge (Annual_Volatility m) (Fin 0))) \<and>
   (returns \<noteq> [] \<and> hd returns \<noteq> - 1 \<longrightarrow>
      (\<exists>m. calculate_portfolio_metrics returns rf = Inr m \<and> fle (Max_Drawdown m) (Fin 0)))"
proof (intro conjI impI)
  assume "2 \<le> length returns"
  then show "\<exists>m. calculate_portfolio_metrics returns rf = Inr m \<and> fge (Annual_Volatility m) (Fin 0)"
    using annual_volatility_nonneg [of returns]
    by (auto simp: calculate_portfolio_metrics_def Let_def)
next
  assume "returns \<noteq> [] \<and> hd returns \<noteq> - 1"
  then show "\<exists>m. calculate_portfolio_metrics returns rf = Inr m \<and> fle (Max_Drawdown m) (Fin 0)"
    using max_drawdown_nonpos [of returns]
    by (auto simp: calculate_portfolio_metrics_def Let_def)
qed

theorem metrics_volatility_drawdown_sign_witness:
  "(\<exists>m. calculate_portfolio_metrics [1/100, - 1/100] (1/50) = Inr m \<and>
        fge (Annual_Volatility m) (Fin 0)) \<and>
   (\<exists>m. calculate_portfolio_metrics [1/100, - 1/100] (1/50) = Inr m \<and>
        fle (Max_Drawdown m) (Fin 0))"
  using metrics_volatility_drawdown_sign [of "[1/100, - 1/100]" "1/50"] by simp

text \<open>
  The claim as stated fails: a single observation has volatility \<open>NaN\<close>, and a first
  return of \<open>-1\<close> makes every drawdown \<open>0 / 0\<close>; neither \<open>NaN \<ge> 0\<close> nor \<open>NaN \<le> 0\<close> holds.
\<close>

theorem metrics_sign_counterexample:
  "map_sum id Annual_Volatility (calculate_portfolio_metrics [1/100] (1/50)) = Inr NaN \<and>
   \<not> fge NaN (Fin 0) \<and>
   map_sum id Max_Drawdown (calculate_portfolio_metrics [- 1, 0] (1/50)) = Inr NaN \<and>
   \<not> fle NaN (Fin 0)"
  by (simp add: calculate_portfolio_metrics_def series_std_def Let_def fge_def
      drawdown_series_def cumprod_def series_min_def dropna_def isna_def inf_of_sign_def)

subsection \<open>Signal scoring\<close>

lemma generate_trading_signal_empty: "generate_trading_signal [] = Inl IndexError"
  by (simp add: generate_trading_signal_def)

lemma generate_trading_signal_result:
  assumes "prices \<noteq> []"
  shows "\<exists>r. generate_trading_signal prices = Inr r \<and>
     (ts_signal r, ts_action r) = overall_signal (ts_score r) \<and>
     ts_confidence r = min (\<bar>ts_score r\<bar> * 15) 100"
  unfolding generate_trading_signal_def
  apply (simp only: assms if_False)
  apply (simp only: Let_def case_prod_beta)
  apply (rule exI, rule conjI, rule refl)
  apply simp
  done

lemma overall_signal_bands:
  "(s \<ge> 4 \<longrightarrow> overall_signal s = (''STRONG BUY'', ''Accumulate'')) \<and>
   (2 \<le> s \<and> s < 4 \<longrightarrow> overall_signal s = (''BUY'', ''Accumulate'')) \<and>
   (s \<le> - 4 \<longrightarrow> overall_signal s = (''STRONG SELL'', ''Distribute'')) \<and>
   (- 4 < s \<and> s \<le> - 2 \<longrightarrow> overall_signal s = (''SELL'', ''Distribute'')) \<and>
   (- 2 < s \<and> s < 2 \<longrightarrow> overall_signal s = (''HOLD'', ''Hold''))"
  by (simp add: overall_signal_def)

text \<open>
  Claim C8. On every non-empty price series \<^verbatim>\<open>generate_trading_signal\<close> returns, and
  its signal and action follow its integer score: \<open>\<ge> 4\<close> STRONG BUY / Accumulate, from
  \<open>2\<close> to \<open>3\<close> BUY / Accumulate, \<open>\<le> -4\<close> STRONG SELL / Distribute, from \<open>-3\<close> to \<open>-2\<close>
  SELL / Distribute, otherwise HOLD; the confidence is \<open>min (|score| * 15) 100\<close>.
  (An empty series raises \<^verbatim>\<open>IndexError\<close> before any score exists.)
\<close>

theorem trading_signal_classification:
  assumes "prices \<noteq> []"
  shows "\<exists>r. generate_trading_signal prices = Inr r \<and>
     (ts_score r \<ge> 4 \<longrightarrow> ts_signal r = ''STRONG BUY'' \<and> ts_action r = ''Accumulate'') \<and>
     (2 \<le> ts_score r \<and> ts_score r < 4 \<longrightarrow> ts_signal r = ''BUY'' \<and> ts_action r = ''Accumulate'') \<and>
     (ts_score r \<le> - 4 \<longrightarrow> ts_signal r = ''STRONG SELL'' \<and> ts_action r = ''Distribute'') \<and>
     (- 4 < ts_score r \<and> ts_score r \<le> - 2 \<longrightarrow> ts_signal r = ''SELL'' \<and> ts_action r = ''Distribute'') \<and>
     (- 2 < ts_score r \<and> ts_score r < 2 \<longrightarrow> ts_signal r = ''HOLD'' \<and> ts_action r = ''Hold'') \<and>
     ts_confidence r = min (\<bar>ts_score r\<bar> * 15) 100"
proof -
  obtain r where r: "generate_trading_signal prices = Inr r"
    and sig: "(ts_signal r, ts_action r) = overall_signal (ts_score r)"
    and conf: "ts_confidence r = min (\<bar>ts_score r\<bar> * 15) 100"
    using generate_trading_signal_result [OF assms] by blast
  show ?thesis
    using r conf overall_signal_bands [of "ts_score r"] sig [symmetric]
    by (intro exI [of _ r]) auto
qed

theorem trading_signal_classification_witness:
  "\<exists>r. generate_trading_signal [100, 101] = Inr r \<and>
     (ts_score r \<ge> 4 \<longrightarrow> ts_signal r = ''STRONG BUY'' \<and> ts_action r = ''Accumulate'') \<and>
     (2 \<le> ts_score r \<and> ts_score r < 4 \<longrightarrow> ts_signal r = ''BUY'' \<and> ts_action r = ''Accumulate'') \<and>
     (ts_score r \<le> - 4 \<longrightarrow> ts_signal r = ''STRONG SELL'' \<and> ts_action r = ''Distribute'') \<and>
     (- 4 < ts_score r \<and> ts_score r \<le> - 2 \<longrightarrow> ts_signal r = ''SELL'' \<and> ts_action r = ''Distribute'') \<and>
     (- 2 < ts_score r \<and> ts_score r < 2 \<longrightarrow> ts_signal r = ''HOLD'' \<and> ts_action r = ''Hold'') \<and>
     ts_confidence r = min (\<bar>ts_score r\<bar> * 15) 100"
  using trading_signal_classification [of "[100, 101]"] by simp

subsection \<open>Current-state regime\<close>

text \<open>
  Claim C7. The regime \<^verbatim>\<open>detect_market_regime_enhanced\<close> reports is the first match of
  the priority list over the statistics it computes (annualized deviation of the last
  \<open>min 60 n\<close> returns, 60-day momentum, 20-day return), and the allocation it reports is
  the fixed one of that regime.
\<close>

theorem regime_enhanced_priority:
  "rr_regime (detect_market_regime_enhanced returns prices) =
     regime_by_priority
       (fmul (series_std (tail (min 60 (length returns)) returns)) (Fin (sqrt 252)))
       (fdiv (recent_return prices 60) (Fin 100))
       (recent_return prices 20) \<and>
   rr_allocation (detect_market_regime_enhanced returns prices) =
     target_allocation (rr_regime (detect_market_regime_enhanced returns prices))"
  by (simp add: detect_market_regime_enhanced_def regime_by_priority_def Let_def)

subsection \<open>Rolling historical regimes\<close>

lemma fgt_NaN: "\<not> fgt NaN a" "\<not> flt NaN a"
  by (cases a; simp add: fgt_def)+

lemma rolling_length: "length (rolling w f xs) = length xs"
  by (simp add: rolling_def)

lemma rolling_nth:
  "t < length xs \<Longrightarrow>
   rolling w f xs ! t = (if w = 0 \<or> t + 1 < w then NaN else f (take w (drop (t + 1 - w) xs)))"
  by (simp add: rolling_def)

lemma assign_where_nth:
  "t < length selected \<Longrightarrow> t < length xs \<Longrightarrow>
   assign_where selected v xs ! t = (if selected ! t then v else xs ! t)"
  by (simp add: assign_where_def)

lemma assign_where_length:
  "length (assign_where selected v xs) = min (length selected) (length xs)"
  by (simp add: assign_where_def)

lemma detect_market_regimes_length:
  "length (detect_market_regimes returns lookback) = length returns"
  by (simp add: detect_market_regimes_def Let_def assign_where_length rolling_length)

lemma median_volatility_eq:
  "median_volatility returns lookback =
   series_median (map (\<lambda>s. fmul s (Fin (sqrt 252))) (rolling lookback series_std returns))"
  unfolding median_volatility_def rolling_def trailing_window_def by (simp add: comp_def)

text \<open>The Bull and Bear selections exclude each other, so the order of the four
  assignments does not matter.\<close>

lemma bear_not_bull: "flt a (Fin (- (1/50))) \<Longrightarrow> fgt a (Fin (1/50)) \<Longrightarrow> False"
  by (cases a) (auto simp: fgt_def)

lemma detect_market_regimes_nth:
  assumes "t < length returns"
  shows "detect_market_regimes returns lookback ! t =
         regime_label (fmul (rolling lookback series_mean returns ! t) (Fin 252))
           (fmul (rolling lookback series_std returns ! t) (Fin (sqrt 252)))
           (median_volatility returns lookback)"
  using assms
  unfolding median_volatility_eq detect_market_regimes_def Let_def regime_label_def
  by (auto simp: assign_where_nth assign_where_length rolling_length dest: bear_not_bull)

lemma trailing_window_length:
  "lookback \<le> t + 1 \<Longrightarrow> t < length returns \<Longrightarrow>
   length (trailing_window returns lookback t) = lookback"
  by (simp add: trailing_window_def)

text \<open>
  Claim C6. \<^verbatim>\<open>detect_market_regimes\<close> labels every date of the series with one of the
  five labels. A date with fewer than \<open>lookback\<close> trailing observations is
  \<open>Sideways/Choppy\<close>; a date with a full window gets the label of its annualized rolling
  mean (above \<open>2%\<close> Bull, below \<open>-2%\<close> Bear, otherwise Sideways/Choppy), Bull and Bear
  split by whether its rolling volatility exceeds the full-history median.
\<close>

theorem regimes_partition:
  assumes "t < length returns"
  shows "length (detect_market_regimes returns lookback) = length returns \<and>
         detect_market_regimes returns lookback ! t \<in> set regime_labels \<and>
         (t + 1 < lookback \<longrightarrow>
            detect_market_regimes returns lookback ! t = ''Sideways/Choppy'') \<and>
         (0 < lookback \<and> lookback \<le> t + 1 \<longrightarrow>
            detect_market_regimes returns lookback ! t =
              regime_label
                (Fin (sum_list (trailing_window returns lookback t) / real lookback * 252))
                (fmul (series_std (trailing_window returns lookback t)) (Fin (sqrt 252)))
                (median_volatility returns lookback))"
proof (intro conjI impI)
  show "length (detect_market_regimes returns lookback) = length returns"
    by (rule detect_market_regimes_length)
  show "detect_market_regimes returns lookback ! t \<in> set regime_labels"
    unfolding detect_market_regimes_nth [OF assms]
    by (simp add: regime_label_def regime_labels_def)
  show "detect_market_regimes returns lookback ! t = ''Sideways/Choppy''" if "t + 1 < lookback"
    using that unfolding detect_market_regimes_nth [OF assms]
    by (simp add: rolling_nth [OF assms] regime_label_def fgt_NaN)
  show "detect_market_regimes returns lookback ! t =
          regime_label
            (Fin (sum_list (trailing_window returns lookback t) / real lookback * 252))
            (fmul (series_std (trailing_window returns lookback t)) (Fin (sqrt 252)))
            (median_volatility returns lookback)"
    if h: "0 < lookback \<and> lookback \<le> t + 1"
  proof -
    have len: "length (trailing_window returns lookback t) = lookback"
      using h assms by (simp add: trailing_window_length)
    then have ne: "trailing_window returns lookback t \<noteq> []" using h by auto
    have "rolling lookback series_mean returns ! t =
            Fin (sum_list (trailing_window returns lookback t) / real lookback)"
      using h ne len by (simp add: rolling_nth [OF assms] series_mean_def trailing_window_def)
    moreover have "rolling lookback series_std returns ! t =
            series_std (trailing_window returns lookback t)"
      using h by (simp add: rolling_nth [OF assms] trailing_window_def)
    ultimately show ?thesis
      unfolding detect_market_regimes_nth [OF assms] by simp
  qed
qed

lemma sample_var_constant_pair: "sample_var [1/100, 1/100] = 0"
  by (simp add: sample_var_def)

theorem regimes_partition_witness:
  "detect_market_regimes [1/100, 1/100, 1/100] 2 ! 0 = ''Sideways/Choppy'' \<and>
   detect_market_regimes [1/100, 1/100, 1/100] 2 ! 2 = ''Bull Market (Low Vol)''"
  using regimes_partition [of 0 "[1/100, 1/100, 1/100]" 2]
        regimes_partition [of 2 "[1/100, 1/100, 1/100]" 2]
  by (simp add: trailing_window_def regime_label_def median_volatility_def series_std_def
        sample_var_constant_pair series_median_def finite_values_def List.map_filter_def
        fgt_def upt_rec numeral_nat)

subsection \<open>Letter grades\<close>

lemma in_some_band_iff: "in_some_band v bs \<longleftrightarrow> (\<exists>b \<in> set bs. in_band v b)"
  by (induction bs) (auto simp: in_band_def)

lemma first_grade_find:
  "first_grade c v grades =
     (case find (\<lambda>g. \<exists>b \<in> set (grade_bands c g). in_band v b) grades of
        Some g \<Rightarrow> g | None \<Rightarrow> ''F'')"
  by (induction grades) (auto simp: in_some_band_iff)

lemma max_drawdown_zero_grade: "fst (grade_metric ''Max Drawdown'' (Fin 0)) = ''F''"
  by (simp add: grade_metric_def grading_criteria_def grade_bands_def)

lemma win_rate_one_grade: "fst (grade_metric ''Win Rate'' (Fin 1)) = ''F''"
  by (simp add: grade_metric_def grading_criteria_def grade_bands_def)

text \<open>
  Claim C10. For a metric of the table, \<^verbatim>\<open>grade_metric\<close> returns the first grade of
  A, B, C, D, F one of whose bands holds the value as \<open>low \<le> value < high\<close>, and \<open>F\<close> when
  no band does. A maximum drawdown of exactly \<open>0\<close> and a win rate of exactly \<open>1\<close> are the
  excluded upper ends of their A bands and are graded \<open>F\<close>.
\<close>

theorem grade_metric_half_open:
  "(map_of grading_criteria metric_name = Some c \<longrightarrow>
      fst (grade_metric metric_name v) =
        (case find (\<lambda>g. \<exists>b \<in> set (grade_bands c g). in_band v b) [''A'', ''B'', ''C'', ''D'', ''F'']
         of Some g \<Rightarrow> g | None \<Rightarrow> ''F'')) \<and>
   fst (grade_metric ''Max Drawdown'' (Fin 0)) = ''F'' \<and>
   fst (grade_metric ''Win Rate'' (Fin 1)) = ''F''"
  using max_drawdown_zero_grade win_rate_one_grade
  by (simp add: grade_metric_def first_grade_find del: find.simps)

theorem grade_metric_half_open_witness:
  "fst (grade_metric ''Sharpe Ratio'' (Fin (7/10))) = ''B''"
  using grade_metric_half_open
    [of "''Sharpe Ratio''" "the (map_of grading_criteria ''Sharpe Ratio'')" "Fin (7/10)"]
  by (simp add: grading_criteria_def grade_bands_def in_band_def)

subsection \<open>Percentile ranking\<close>

lemma fgt_irrefl: "\<not> fgt a a"
  by (cases a) (auto simp: fgt_def)

text \<open>
  What the block computes: with \<open>k\<close> of \<open>n\<close> benchmarks beaten the value is
  \<open>100 * k / (n + 1)\<close>, as the portfolio's own ratio is in the list the count is
  divided by.
\<close>

lemma percentile_ranking_value:
  "percentile_ranking portfolio_sharpe benchmark_sharpes =
     100 * real (better_count portfolio_sharpe benchmark_sharpes)
       / real (length benchmark_sharpes + 1)"
  by (simp add: percentile_ranking_def better_count_def fgt_irrefl)

text \<open>
  Claim C9. The percentile is the share of the benchmarks whose Sharpe ratio the
  portfolio exceeds, and the code's own texts read it so. The computation does not
  give it: a portfolio with Sharpe ratio \<open>1.2\<close> that beats all three benchmarks
  \<open>0.5\<close>, \<open>0.8\<close>, \<open>1.0\<close> gets \<open>75\<close>, not \<open>100\<close>, and one that beats its only benchmark
  gets \<open>50\<close>.
\<close>

theorem percentile_ranking_counts_portfolio:
  "better_count (Fin (12/10)) [Fin (5/10), Fin (8/10), Fin 1] = 3 \<and>
   length [Fin (5/10), Fin (8/10), Fin 1] = 3 \<and>
   percentile_ranking (Fin (12/10)) [Fin (5/10), Fin (8/10), Fin 1] = 75 \<and>
   better_count (Fin 1) [Fin (1/2)] = 1 \<and>
   percentile_ranking (Fin 1) [Fin (1/2)] = 50"
  by (simp add: percentile_ranking_def better_count_def fgt_def)

subsection \<open>Value at risk and expected shortfall\<close>

lemma quantile_interpolate:
  "xs \<noteq> [] \<Longrightarrow> quantile xs q = Fin (interpolate (sort xs) ((real (length xs) - 1) * q))"
  by (simp add: quantile_def interpolate_def Let_def)

lemma interpolate_bounds:
  assumes "sorted s" "s \<noteq> []" "0 \<le> h" "h \<le> real (length s) - 1"
  shows "s ! nat \<lfloor>h\<rfloor> \<le> interpolate s h"
    and "interpolate s h \<le> s ! min (nat \<lfloor>h\<rfloor> + 1) (length s - 1)"
proof -
  let ?lo = "nat \<lfloor>h\<rfloor>" and ?hi = "min (nat \<lfloor>h\<rfloor> + 1) (length s - 1)"
  have lo_h: "real ?lo \<le> h" "h < real ?lo + 1" using assms(3) by linarith+
  have pos: "0 < length s" using assms(2) by simp
  have "real ?lo \<le> real (length s) - 1" using lo_h(1) assms(4) by linarith
  then have lo: "?lo < length s" using pos by linarith
  have hi: "?hi < length s" using assms(2) by (cases s) (auto simp: min_def)
  have le: "s ! ?lo \<le> s ! ?hi" using assms(1) lo hi by (intro sorted_nth_mono) auto
  have f0: "0 \<le> h - real ?lo" and f1: "h - real ?lo \<le> 1" using lo_h by linarith+
  have "0 \<le> (h - real ?lo) * (s ! ?hi - s ! ?lo)" using f0 le by simp
  then show "s ! ?lo \<le> interpolate s h" by (simp add: interpolate_def Let_def)
  have "(h - real ?lo) * (s ! ?hi - s ! ?lo) \<le> 1 * (s ! ?hi - s ! ?lo)"
    using f1 le by (intro mult_right_mono) auto
  then show "interpolate s h \<le> s ! ?hi" by (simp add: interpolate_def Let_def)
qed

lemma interpolate_mono:
  assumes "sorted s" "s \<noteq> []" "0 \<le> h1" "h1 \<le> h2" "h2 \<le> real (length s) - 1"
  shows "interpolate s h1 \<le> interpolate s h2"
proof (cases "nat \<lfloor>h1\<rfloor> = nat \<lfloor>h2\<rfloor>")
  case True
  let ?lo = "nat \<lfloor>h2\<rfloor>" and ?hi = "min (nat \<lfloor>h2\<rfloor> + 1) (length s - 1)"
  have lo_h: "real ?lo \<le> h2" using assms by linarith
  have pos: "0 < length s" using assms(2) by simp
  have "real ?lo \<le> real (length s) - 1" using lo_h assms(5) by linarith
  then have lo: "?lo < length s" using pos by linarith
  have hi: "?hi < length s" using assms(2) by (cases s) (auto simp: min_def)
  have le: "s ! ?lo \<le> s ! ?hi" using assms(1) lo hi by (intro sorted_nth_mono) auto
  have "(h1 - real ?lo) * (s ! ?hi - s ! ?lo) \<le> (h2 - real ?lo) * (s ! ?hi - s ! ?lo)"
    using assms(4) le by (intro mult_right_mono) auto
  then show ?thesis using True by (simp add: interpolate_def Let_def)
next
  case False
  have "\<lfloor>h1\<rfloor> \<le> \<lfloor>h2\<rfloor>" using assms(4) by (rule floor_mono)
  then have lt: "nat \<lfloor>h1\<rfloor> < nat \<lfloor>h2\<rfloor>" using False by linarith
  have lo_h: "real (nat \<lfloor>h2\<rfloor>) \<le> h2" using assms by linarith
  have pos: "0 < length s" using assms(2) by simp
  have "real (nat \<lfloor>h2\<rfloor>) \<le> real (length s) - 1" using lo_h assms(5) by linarith
  then have lo2: "nat \<lfloor>h2\<rfloor> < length s" using pos by linarith
  have "interpolate s h1 \<le> s ! min (nat \<lfloor>h1\<rfloor> + 1) (length s - 1)"
    using assms by (intro interpolate_bounds) auto
  also have "\<dots> \<le> s ! nat \<lfloor>h2\<rfloor>"
  proof (rule sorted_nth_mono [OF assms(1)])
    show "min (nat \<lfloor>h1\<rfloor> + 1) (length s - 1) \<le> nat \<lfloor>h2\<rfloor>" using lt by linarith
    show "nat \<lfloor>h2\<rfloor> < length s" by (rule lo2)
  qed
  also have "\<dots> \<le> interpolate s h2"
    using assms by (intro interpolate_bounds) auto
  finally show ?thesis .
qed


lemma sum_list_le_bound:
  "(\<And>y. y \<in> set ys \<Longrightarrow> y \<le> (v::real)) \<Longrightarrow> sum_list ys \<le> real (length ys) * v"
  by (induction ys) (auto simp: algebra_simps, force)

lemma sum_list_ge_bound:
  "(\<And>y. y \<in> set ys \<Longrightarrow> (v::real) \<le> y) \<Longrightarrow> real (length ys) * v \<le> sum_list ys"
  by (induction ys) (auto simp: algebra_simps, force)

lemma filter_le_split:
  assumes "(v1::real) \<le> v2"
  shows "sum_list (filter (\<lambda>x. x \<le> v2) xs) =
           sum_list (filter (\<lambda>x. x \<le> v1) xs) + sum_list (filter (\<lambda>x. v1 < x \<and> x \<le> v2) xs)"
    and "length (filter (\<lambda>x. x \<le> v2) xs) =
           length (filter (\<lambda>x. x \<le> v1) xs) + length (filter (\<lambda>x. v1 < x \<and> x \<le> v2) xs)"
  using assms by (induction xs) auto

lemma mean_lower_tail_mono:
  assumes "(v1::real) \<le> v2" "filter (\<lambda>x. x \<le> v1) xs \<noteq> []"
  shows "sum_list (filter (\<lambda>x. x \<le> v1) xs) / real (length (filter (\<lambda>x. x \<le> v1) xs))
       \<le> sum_list (filter (\<lambda>x. x \<le> v2) xs) / real (length (filter (\<lambda>x. x \<le> v2) xs))"
proof -
  let ?A = "filter (\<lambda>x. x \<le> v1) xs" and ?B = "filter (\<lambda>x. x \<le> v2) xs"
  let ?C = "filter (\<lambda>x. v1 < x \<and> x \<le> v2) xs"
  have sB: "sum_list ?B = sum_list ?A + sum_list ?C"
    and lB: "length ?B = length ?A + length ?C"
    using filter_le_split [OF assms(1)] by blast+
  have a: "0 < real (length ?A)" using assms(2) by simp
  have "0 < real (length ?A) + real (length ?C)" using a by (rule add_pos_nonneg) simp
  then have b: "0 < real (length ?B)" unfolding lB by simp
  have sA: "sum_list ?A \<le> real (length ?A) * v1" by (rule sum_list_le_bound) auto
  have sC: "real (length ?C) * v1 \<le> sum_list ?C" by (rule sum_list_ge_bound) auto
  have "sum_list ?A * real (length ?C) \<le> real (length ?A) * v1 * real (length ?C)"
    using sA by (intro mult_right_mono) auto
  also have "\<dots> = real (length ?A) * (real (length ?C) * v1)" by simp
  also have "\<dots> \<le> real (length ?A) * sum_list ?C"
    using sC by (intro mult_left_mono) auto
  finally have "sum_list ?A * real (length ?C) \<le> real (length ?A) * sum_list ?C" .
  then have "sum_list ?A * real (length ?B) \<le> sum_list ?B * real (length ?A)"
    by (simp add: sB lB algebra_simps)
  then show ?thesis using a b by (simp add: field_simps)
qed

lemma sorted_nth_le_count:
  "sorted s \<Longrightarrow> i < length (filter (\<lambda>x. x \<le> (c::real)) s) \<Longrightarrow> s ! i \<le> c"
proof (induction s arbitrary: i)
  case Nil
  then show ?case by simp
next
  case (Cons x xs)
  show ?case
  proof (cases "x \<le> c")
    case True
    then show ?thesis using Cons by (cases i) auto
  next
    case False
    then have "filter (\<lambda>y. y \<le> c) xs = []" using Cons.prems(1) by (auto simp: filter_empty_conv)
    then show ?thesis using Cons.prems(2) False by simp
  qed
qed


lemma quantile_level_pos:
  assumes "xs \<noteq> []" "0 \<le> q" "q \<le> 1"
  shows "0 \<le> (real (length xs) - 1) * q" "(real (length xs) - 1) * q \<le> real (length (sort xs)) - 1"
proof -
  have n: "0 \<le> real (length xs) - 1" using assms(1) by (cases xs) auto
  show "0 \<le> (real (length xs) - 1) * q" using n assms(2) by simp
  have "(real (length xs) - 1) * q \<le> (real (length xs) - 1) * 1"
    using n assms(3) by (intro mult_left_mono) auto
  then show "(real (length xs) - 1) * q \<le> real (length (sort xs)) - 1" by simp
qed

lemma quantile_mono:
  assumes "xs \<noteq> []" "0 \<le> q1" "q1 \<le> q2" "q2 \<le> 1"
  shows "\<exists>v1 v2. quantile xs q1 = Fin v1 \<and> quantile xs q2 = Fin v2 \<and> v1 \<le> v2"
proof -
  have n: "0 \<le> real (length xs) - 1" using assms(1) by (cases xs) auto
  have "interpolate (sort xs) ((real (length xs) - 1) * q1) \<le> interpolate (sort xs) ((real (length xs) - 1) * q2)"
  proof (rule interpolate_mono)
    show "sorted (sort xs)" by simp
    show "sort xs \<noteq> []" using assms(1) by (metis length_sort length_0_conv)
    show "0 \<le> (real (length xs) - 1) * q1" using n assms(2) by simp
    show "(real (length xs) - 1) * q1 \<le> (real (length xs) - 1) * q2"
      using n assms(3) by (intro mult_left_mono) auto
    show "(real (length xs) - 1) * q2 \<le> real (length (sort xs)) - 1"
      using quantile_level_pos(2) [OF assms(1) _ assms(4)] assms by simp
  qed
  then show ?thesis using assms(1) by (simp add: quantile_interpolate)
qed

lemma quantile_has_lower_observation:
  assumes "xs \<noteq> []" "0 \<le> q" "q \<le> 1" "quantile xs q = Fin v"
  shows "filter (\<lambda>x. x \<le> v) xs \<noteq> []"
proof -
  let ?s = "sort xs" and ?h = "(real (length xs) - 1) * q"
  have ne: "?s \<noteq> []" using assms(1) by (metis length_sort length_0_conv)
  have h0: "0 \<le> ?h" and h1: "?h \<le> real (length ?s) - 1"
    using quantile_level_pos [OF assms(1-3)] by auto
  have le: "?s ! nat \<lfloor>?h\<rfloor> \<le> interpolate ?s ?h"
    by (rule interpolate_bounds(1)) (use ne h0 h1 in auto)
  have "real (nat \<lfloor>?h\<rfloor>) \<le> ?h" using h0 by linarith
  then have "real (nat \<lfloor>?h\<rfloor>) \<le> real (length ?s) - 1" using h1 by linarith
  moreover have "0 < length ?s" using assms(1) by simp
  ultimately have lo: "nat \<lfloor>?h\<rfloor> < length ?s" by linarith
  then have "?s ! nat \<lfloor>?h\<rfloor> \<in> set ?s" by (rule nth_mem)
  then have mem: "?s ! nat \<lfloor>?h\<rfloor> \<in> set xs" by simp
  have "v = interpolate ?s ?h" using assms(1,4) by (simp add: quantile_interpolate)
  then have "?s ! nat \<lfloor>?h\<rfloor> \<le> v" using le by simp
  then show ?thesis using mem by (auto simp: filter_empty_conv)
qed

lemma quantile_nonpos:
  assumes "xs \<noteq> []" "0 \<le> q" "q \<le> 1" "quantile xs q = Fin v"
    and cnt: "min (nat \<lfloor>(real (length xs) - 1) * q\<rfloor> + 2) (length xs)
                \<le> length (filter (\<lambda>x. x \<le> 0) xs)"
  shows "v \<le> 0"
proof -
  let ?s = "sort xs" and ?h = "(real (length xs) - 1) * q"
  let ?hi = "min (nat \<lfloor>?h\<rfloor> + 1) (length ?s - 1)"
  have ne: "?s \<noteq> []" using assms(1) by (metis length_sort length_0_conv)
  have h0: "0 \<le> ?h" and h1: "?h \<le> real (length ?s) - 1"
    using quantile_level_pos [OF assms(1-3)] by auto
  have up: "interpolate ?s ?h \<le> ?s ! ?hi"
    by (rule interpolate_bounds(2)) (use ne h0 h1 in auto)
  have "length (filter (\<lambda>x. x \<le> 0) ?s) = length (filter (\<lambda>x. x \<le> 0) xs)"
    by (simp add: filter_sort)
  moreover have "?hi < min (nat \<lfloor>?h\<rfloor> + 2) (length xs)"
    using assms(1) by (cases xs) (auto simp: min_def)
  ultimately have "?hi < length (filter (\<lambda>x. x \<le> 0) ?s)" using cnt by linarith
  then have "?s ! ?hi \<le> 0" by (intro sorted_nth_le_count) auto
  moreover have "v = interpolate ?s ?h" using assms(1,4) by (simp add: quantile_interpolate)
  ultimately show ?thesis using up by simp
qed

lemma mean_le_bound:
  assumes "ys \<noteq> []" "\<And>y. y \<in> set ys \<Longrightarrow> y \<le> (v::real)"
  shows "sum_list ys / real (length ys) \<le> v"
proof -
  have "sum_list ys \<le> real (length ys) * v" using assms(2) by (rule sum_list_le_bound)
  moreover have "0 < real (length ys)" using assms(1) by simp
  ultimately show ?thesis by (simp add: field_simps)
qed

text \<open>
  Claim C4, as amended. On every non-empty series, with \<open>eps\<close> a bound on the rounding
  error of the float mean of the two tails, \<open>CVaR(95%) \<le> VaR(95%) + eps\<close> and
  \<open>CVaR(99%) \<le> CVaR(95%) + 2 * eps\<close>; without rounding (\<open>eps = 0\<close>) these are the
  orderings themselves. \<open>VaR(95%) \<le> 0\<close> holds when both observations the 5% quantile
  interpolates between are \<open>\<le> 0\<close>, that is when at least
  \<open>min (\<lfloor>(n - 1) / 20\<rfloor> + 2) n\<close> of the \<open>n\<close> returns are.
\<close>

theorem var_cvar_ordering_rounded:
  assumes ne: "returns \<noteq> []"
    and e95: "mean_error_within eps float_mean (tail_at_or_below returns (quantile returns (1/20)))"
    and e99: "mean_error_within eps float_mean (tail_at_or_below returns (quantile returns (1/100)))"
  shows "\<exists>v95 c95 c99.
           VaR_95 (calculate_forward_risk_metrics float_mean returns cl) = Fin v95 \<and>
           CVaR_95 (calculate_forward_risk_metrics float_mean returns cl) = Fin c95 \<and>
           CVaR_99 (calculate_forward_risk_metrics float_mean returns cl) = Fin c99 \<and>
           c95 \<le> v95 + eps \<and> c99 \<le> c95 + 2 * eps \<and>
           (min (nat \<lfloor>(real (length returns) - 1) / 20\<rfloor> + 2) (length returns)
              \<le> length (filter (\<lambda>r. r \<le> 0) returns) \<longrightarrow> v95 \<le> 0)"
proof -
  obtain v99 v95 where v99: "quantile returns (1/100) = Fin v99"
    and v95: "quantile returns (1/20) = Fin v95" and le: "v99 \<le> v95"
    using quantile_mono [OF ne, of "1/100" "1/20"] by auto
  let ?A = "filter (\<lambda>r. r \<le> v99) returns" and ?B = "filter (\<lambda>r. r \<le> v95) returns"
  have tA: "tail_at_or_below returns (Fin v99) = ?A" and tB: "tail_at_or_below returns (Fin v95) = ?B"
    by (simp_all add: tail_at_or_below_def)
  have neA: "?A \<noteq> []" by (rule quantile_has_lower_observation [OF ne _ _ v99]) auto
  have neB: "?B \<noteq> []" by (rule quantile_has_lower_observation [OF ne _ _ v95]) auto
  have c95: "CVaR_95 (calculate_forward_risk_metrics float_mean returns cl) = Fin (float_mean ?B)"
    using neB by (simp add: calculate_forward_risk_metrics_def Let_def v95 tB rounded_series_mean_def)
  have c99: "CVaR_99 (calculate_forward_risk_metrics float_mean returns cl) = Fin (float_mean ?A)"
    using neA by (simp add: calculate_forward_risk_metrics_def Let_def v99 tA rounded_series_mean_def)
  have r95: "VaR_95 (calculate_forward_risk_metrics float_mean returns cl) = Fin v95"
    by (simp add: calculate_forward_risk_metrics_def Let_def v95)
  have dB: "\<bar>float_mean ?B - exact_mean ?B\<bar> \<le> eps"
    using e95 by (simp add: mean_error_within_def v95 tB)
  have dA: "\<bar>float_mean ?A - exact_mean ?A\<bar> \<le> eps"
    using e99 by (simp add: mean_error_within_def v99 tA)
  have 1: "exact_mean ?B \<le> v95"
    unfolding exact_mean_def using neB by (rule mean_le_bound) auto
  have 2: "exact_mean ?A \<le> exact_mean ?B"
    unfolding exact_mean_def using le neA by (rule mean_lower_tail_mono)
  have 3: "v95 \<le> 0"
    if "min (nat \<lfloor>(real (length returns) - 1) / 20\<rfloor> + 2) (length returns)
          \<le> length (filter (\<lambda>r. r \<le> 0) returns)"
    by (rule quantile_nonpos [OF ne _ _ v95]) (use that in auto)
  have "float_mean ?B \<le> v95 + eps" using dB 1 by linarith
  moreover have "float_mean ?A \<le> float_mean ?B + 2 * eps" using dA dB 2 by linarith
  ultimately show ?thesis using 3 c95 c99 r95 by blast
qed

text \<open>The witness takes the exact mean (\<open>eps = 0\<close>) on \<open>[-0.02, -0.01, 0.03]\<close>: the 5%
  quantile is \<open>-0.019\<close> and both expected shortfalls are \<open>-0.02\<close>.\<close>

theorem var_cvar_ordering_rounded_witness:
  "VaR_95 (calculate_forward_risk_metrics exact_mean [- 2/100, - 1/100, 3/100] (95/100))
     = Fin (- (19/1000)) \<and>
   CVaR_95 (calculate_forward_risk_metrics exact_mean [- 2/100, - 1/100, 3/100] (95/100))
     = Fin (- (2/100)) \<and>
   CVaR_99 (calculate_forward_risk_metrics exact_mean [- 2/100, - 1/100, 3/100] (95/100))
     = Fin (- (2/100))"
  using var_cvar_ordering_rounded [of "[- 2/100, - 1/100, 3/100]" 0 exact_mean "95/100"]
  by (simp add: mean_error_within_def calculate_forward_risk_metrics_def quantile_def Let_def
      tail_at_or_below_def rounded_series_mean_def exact_mean_def)

text \<open>
  The claim as stated fails twice. \<open>[-0.01, 0.5]\<close> holds a negative return and its 5%
  quantile is \<open>-0.01 + 0.05 * 0.51 = 0.0155 > 0\<close>, whatever the mean computes. And on
  the tied series \<open>[0.1, 0.1, 0.1]\<close> a mean that rounds upwards, as the float mean of
  three \<open>0.1\<close> does (\<open>0.10000000000000002\<close>), gives \<open>CVaR(95%) > VaR(95%) = 0.1\<close>.
\<close>

theorem var_positive_counterexample:
  "- 1/100 \<in> set [- 1/100, 1/2 :: real] \<and> (- 1/100 :: real) < 0 \<and>
   VaR_95 (calculate_forward_risk_metrics exact_mean [- 1/100, 1/2] (95/100)) = Fin (31/2000) \<and>
   \<not> fle (Fin (31/2000)) (Fin 0) \<and>
   VaR_95 (calculate_forward_risk_metrics (\<lambda>xs. exact_mean xs + 2 / 10 ^ 17)
            [1/10, 1/10, 1/10] (95/100)) = Fin (1/10) \<and>
   CVaR_95 (calculate_forward_risk_metrics (\<lambda>xs. exact_mean xs + 2 / 10 ^ 17)
            [1/10, 1/10, 1/10] (95/100)) = Fin (1/10 + 2 / 10 ^ 17) \<and>
   \<not> fle (Fin (1/10 + 2 / 10 ^ 17)) (Fin (1/10))"
  by (simp add: calculate_forward_risk_metrics_def quantile_def Let_def tail_at_or_below_def
      rounded_series_mean_def exact_mean_def)

subsection \<open>Portfolio returns\<close>

lemma pct_row_finite:
  assumes "length prev = length cur" "\<forall>p \<in> set prev. p \<noteq> 0"
  shows "map2 (\<lambda>p q. fsub (fdiv (Fin q) (Fin p)) (Fin 1)) prev cur =
         map Fin (map2 (\<lambda>p q. (q - p) / p) prev cur)"
  using assms
  by (induction prev cur rule: list_induct2) (auto simp: fsub_def field_simps)

lemma foldl_fadd_Fin: "foldl fadd (Fin a) (map Fin ys) = Fin (a + sum_list ys)"
  by (induction ys arbitrary: a) (auto simp: algebra_simps)

lemma dropna_Fin: "dropna (map Fin ys) = map Fin ys"
  by (induction ys) (auto simp: dropna_def isna_def)

lemma weighted_row_sum:
  "row_sum (map2 (\<lambda>r w. fmul r (Fin w)) (map Fin xs) ws) = Fin (sum_list (map2 (\<lambda>x w. x * w) xs ws))"
proof -
  have "map2 (\<lambda>r w. fmul r (Fin w)) (map Fin xs) ws = map Fin (map2 (\<lambda>x w. x * w) xs ws)"
    by (induction xs arbitrary: ws) (auto split: list.splits simp: zip_Cons1)
  then show ?thesis unfolding row_sum_def by (simp only: dropna_Fin foldl_fadd_Fin) simp
qed

lemma sum_list_map2_nth:
  assumes "length xs = n" "length ws = n"
  shows "sum_list (map2 (\<lambda>x w. x * w) xs ws) = (\<Sum>j<n. (ws ! j :: real) * xs ! j)"
proof -
  have "sum_list (map2 (\<lambda>x w. x * w) xs ws) = (\<Sum>j = 0..<n. map2 (\<lambda>x w. x * w) xs ws ! j)"
    using assms by (simp add: sum_list_sum_nth)
  also have "\<dots> = (\<Sum>j = 0..<n. ws ! j * xs ! j)"
    using assms by (intro sum.cong) (auto simp: mult.commute)
  finally show ?thesis by (simp add: atLeast0LessThan)
qed

lemma map2_shift_nth:
  "map2 f (r # rs) rs = map (\<lambda>t. f ((r # rs) ! t) ((r # rs) ! (t + 1))) [0..<length rs]"
  by (rule nth_equalityI) (auto simp: nth_Cons')

lemma dropna_rows_first:
  assumes "0 < n"
  shows "dropna_rows (replicate n NaN # map (map Fin) body) = map (map Fin) body"
proof -
  have "list_ex isna (replicate n NaN)" using assms by (cases n) (auto simp: isna_def)
  moreover have "filter (\<lambda>row. \<not> list_ex isna row) (map (map Fin) body) = map (map Fin) body"
    by (induction body) (auto simp: list_ex_iff isna_def)
  ultimately show ?thesis by (simp add: dropna_rows_def)
qed

lemma weighted_rows:
  "map (\<lambda>row. row_sum (map2 (\<lambda>r w. fmul r (Fin w)) row weights)) (map (map Fin) body) =
   map (\<lambda>xs. Fin (sum_list (map2 (\<lambda>x w. x * w) xs weights))) body"
  by (simp add: weighted_row_sum comp_def)

text \<open>
  Claim C1. On a price matrix with at least one asset and no zero price, and a weight
  per asset, \<^verbatim>\<open>calculate_portfolio_returns\<close> returns one value per date after the
  first, the sum over the assets of the weight times the asset's simple return
  \<open>(p\<^sub>t\<^sub>+\<^sub>1 - p\<^sub>t) / p\<^sub>t\<close> at that date. The witness is the scenario of the specification: asset
  returns \<open>[0.01, -0.01, 0.02, -0.02]\<close> and \<open>[0, 0, 0, 0]\<close> with weights \<open>[0.5, 0.5]\<close> give
  \<open>[0.005, -0.005, 0.01, -0.01]\<close>.
\<close>

theorem portfolio_returns_weighted_sum:
  assumes wf: "wf_matrix prices" and n: "0 < n_assets prices"
    and w: "length weights = n_assets prices"
    and nz: "\<forall>row \<in> set (rows prices). \<forall>p \<in> set row. p \<noteq> 0"
  shows "calculate_portfolio_returns prices weights =
           Inr (map (\<lambda>t. Fin (\<Sum>j<n_assets prices.
                           weights ! j * ((rows prices ! (t + 1) ! j - rows prices ! t ! j)
                                           / rows prices ! t ! j)))
                    [0..<length (rows prices) - 1])"
proof (cases "rows prices")
  case Nil
  then show ?thesis using w by (simp add: calculate_portfolio_returns_def pct_change_def dropna_rows_def)
next
  case (Cons r rs)
  let ?ret = "\<lambda>t. map2 (\<lambda>p q. (q - p) / p) ((r # rs) ! t) ((r # rs) ! (t + 1))"
  have len: "\<And>t. t < length (r # rs) \<Longrightarrow> length ((r # rs) ! t) = n_assets prices"
    using wf Cons by (simp add: wf_matrix_def list_all_length)
  have nz': "\<And>t. t < length (r # rs) \<Longrightarrow> \<forall>p \<in> set ((r # rs) ! t). p \<noteq> 0"
    using nz Cons by (metis nth_mem)
  have step: "map2 (\<lambda>p q. fsub (fdiv (Fin q) (Fin p)) (Fin 1)) ((r # rs) ! t) ((r # rs) ! (t + 1))
                = map Fin (?ret t)" if "t < length rs" for t
  proof (rule pct_row_finite)
    show "length ((r # rs) ! t) = length ((r # rs) ! (t + 1))"
      using len [of t] len [of "t + 1"] that by simp
    show "\<forall>p \<in> set ((r # rs) ! t). p \<noteq> 0" using nz' [of t] that by simp
  qed
  have "map2 (\<lambda>prev cur. map2 (\<lambda>p q. fsub (fdiv (Fin q) (Fin p)) (Fin 1)) prev cur) (r # rs) rs
        = map (\<lambda>t. map Fin (?ret t)) [0..<length rs]"
    unfolding map2_shift_nth by (rule map_cong [OF refl]) (use step in auto)
  also have "\<dots> = map (map Fin) (map ?ret [0..<length rs])" by simp
  finally have pc: "pct_change prices =
      replicate (n_assets prices) NaN # map (map Fin) (map ?ret [0..<length rs])"
    by (simp add: pct_change_def Cons)
  have dr: "dropna_rows (pct_change prices) = map (map Fin) (map ?ret [0..<length rs])"
    unfolding pc by (rule dropna_rows_first [OF n])
  have "calculate_portfolio_returns prices weights =
          Inr (map (\<lambda>row. row_sum (map2 (\<lambda>r w. fmul r (Fin w)) row weights))
                 (map (map Fin) (map ?ret [0..<length rs])))"
    using w unfolding calculate_portfolio_returns_def Let_def dr by simp
  also have "\<dots> =
          Inr (map (\<lambda>t. Fin (sum_list (map2 (\<lambda>x w. x * w) (?ret t) weights))) [0..<length rs])"
    unfolding weighted_rows by (simp add: comp_def)
  also have "\<dots> = Inr (map (\<lambda>t. Fin (\<Sum>j<n_assets prices.
                           weights ! j * (((r # rs) ! (t + 1) ! j - (r # rs) ! t ! j)
                                           / (r # rs) ! t ! j)))
                    [0..<length rs])"
  proof -
    have "sum_list (map2 (\<lambda>x w. x * w) (?ret t) weights) =
            (\<Sum>j<n_assets prices. weights ! j * (((r # rs) ! (t + 1) ! j - (r # rs) ! t ! j)
                                           / (r # rs) ! t ! j))" if "t < length rs" for t
    proof -
      have l: "length (?ret t) = n_assets prices" using len [of t] len [of "t + 1"] that by simp
      have "sum_list (map2 (\<lambda>x w. x * w) (?ret t) weights) = (\<Sum>j<n_assets prices. weights ! j * ?ret t ! j)"
        by (rule sum_list_map2_nth [OF l w])
      also have "\<dots> = (\<Sum>j<n_assets prices. weights ! j * (((r # rs) ! (t + 1) ! j - (r # rs) ! t ! j)
                                           / (r # rs) ! t ! j))"
        using len [of t] len [of "t + 1"] that by (intro sum.cong) auto
      finally show ?thesis .
    qed
    then show ?thesis by simp
  qed
  finally show ?thesis by (simp add: Cons)
qed


lemma scenario_asset_returns:
  "pct_change scenario_prices =
     [[NaN, NaN], [Fin (1/100), Fin 0], [Fin (- (1/100)), Fin 0], [Fin (2/100), Fin 0],
      [Fin (- (2/100)), Fin 0]]"
  by (simp add: pct_change_def scenario_prices_def fsub_def numeral_2_eq_2)

theorem portfolio_returns_weighted_sum_witness:
  "calculate_portfolio_returns scenario_prices [1/2, 1/2] =
     Inr [Fin (5/1000), Fin (- (5/1000)), Fin (1/100), Fin (- (1/100))]"
  using portfolio_returns_weighted_sum [of scenario_prices "[1/2, 1/2]"]
  by (simp add: scenario_prices_def wf_matrix_def numeral_2_eq_2 lessThan_Suc upt_rec [of 0]
      upt_rec [of 1] upt_rec [of 2] upt_rec [of 3] upt_rec [of 4])

subsection \<open>Optimizer\<close>

lemma equal_weights_feasible:
  assumes "0 < n"
  shows "feasible_within 0 (replicate n (1 / real n))"
  using assms by (simp add: feasible_within_def list_all_iff sum_list_replicate)

lemma feasible_within_mono: "feasible_within t w \<Longrightarrow> t \<le> t' \<Longrightarrow> feasible_within t' w"
  by (auto simp: feasible_within_def list_all_iff)

text \<open>
  Claim C5. With at least one asset \<^verbatim>\<open>optimize_portfolio\<close> returns a weight vector and
  does not raise. When the solver reports failure the vector is the equal weights
  \<open>1 / n\<close>, which satisfy \<open>0 \<le> w\<^sub>i \<le> 1\<close> and \<open>sum w = 1\<close> exactly; when it reports
  success the vector is the solver's, feasible within the tolerance the solver
  guarantees for a successful result (the hypothesis \<open>solver\<close>).
\<close>

theorem optimizer_weights_feasible:
  assumes n: "0 < n_assets prices" and tol: "0 \<le> tol"
    and solver: "res_success (minimize prices (replicate (n_assets prices) (1 / real (n_assets prices)))
                                (replicate (n_assets prices) (0, 1)))
                 \<longrightarrow> feasible_within tol
                       (res_x (minimize prices (replicate (n_assets prices) (1 / real (n_assets prices)))
                                 (replicate (n_assets prices) (0, 1))))"
  shows "\<exists>w. optimize_portfolio minimize prices ''max_sharpe'' = Inr w \<and>
             feasible_within tol w \<and>
             (\<not> res_success (minimize prices (replicate (n_assets prices) (1 / real (n_assets prices)))
                                (replicate (n_assets prices) (0, 1)))
              \<longrightarrow> w = replicate (n_assets prices) (1 / real (n_assets prices)) \<and>
                  feasible_within 0 w)"
  using n solver equal_weights_feasible [OF n]
    feasible_within_mono [OF equal_weights_feasible [OF n] tol]
  by (auto simp: optimize_portfolio_def Let_def)

theorem optimizer_weights_feasible_witness:
  "optimize_portfolio (\<lambda>prices x0 bounds. \<lparr>res_x = [], res_success = False\<rparr>)
       \<lparr>n_assets = 2, rows = [[100, 50], [101, 50]]\<rparr> ''max_sharpe'' = Inr [1/2, 1/2] \<and>
   feasible_within 0 [1/2, 1/2] \<and>
   (\<exists>w. optimize_portfolio (\<lambda>prices x0 bounds. \<lparr>res_x = [1, 0], res_success = True\<rparr>)
       \<lparr>n_assets = 2, rows = [[100, 50], [101, 50]]\<rparr> ''max_sharpe'' = Inr w \<and>
       feasible_within (1/1000000) w)"
  using optimizer_weights_feasible
          [of "\<lparr>n_assets = 2, rows = [[100, 50], [101, 50]]\<rparr>" 0
              "\<lambda>prices x0 bounds. \<lparr>res_x = [], res_success = False\<rparr>"]
        optimizer_weights_feasible
          [of "\<lparr>n_assets = 2, rows = [[100, 50], [101, 50]]\<rparr>" "1/1000000"
              "\<lambda>prices x0 bounds. \<lparr>res_x = [1, 0], res_success = True\<rparr>"]
  by (simp add: feasible_within_def numeral_2_eq_2)

end
